theory Spec2Isabelle
  imports Complex_Main
begin

section \<open>Range aggregation of the micro sheetlet (range.ts, types.ts)\<close>

text \<open>
  The development embeds \<^verbatim>\<open>range.ts\<close>: the cache key, the aggregation runners,
  \<^verbatim>\<open>runFunc\<close>, the aggregation table, the Readable and Reference capabilities of a
  Range and \<^verbatim>\<open>fromReference\<close>.

  Modelling decisions:
  \<^item> A JavaScript number that is a cell value is a \<open>real\<close> or NaN: rounding and the
    infinities are outside the model. Row and column coordinates are \<open>int\<close>.
  \<^item> Objects are mutated in place by the source (the fiber, the runner's first slot, the
    context's cache); the model passes the context explicitly and returns the updated
    records. A fiber's \<^verbatim>\<open>context\<close> field is a reference to the context; the model
    passes the current state of that context next to the fiber.
  \<^item> \<^verbatim>\<open>context.read\<close> is a call into the host. The model takes the host's answer from a
    function of the coordinates and records every call, in order, in the field \<open>reads\<close>
    of the context, so that the cells a scan visits can be stated.
\<close>

subsection \<open>Values (nano/src/types.ts, micro's types.ts)\<close>

record range =
  tlRow :: int
  tlCol :: int
  height :: int
  width :: int

text \<open>
  Modelled from the spec: the error objects \<^verbatim>\<open>errors.div0\<close> and
  \<^verbatim>\<open>errors.unknownField\<close> of \<^verbatim>\<open>./core\<close>, which is not among the sources. They are
  objects that carry the Error capability; the model gives them no Readable capability.
\<close>

datatype errors = div0 | unknownField

text \<open>
  The numbers: a real, or NaN. Sum and product with NaN are NaN; the comparisons
  \<^verbatim>\<open>>\<close> and \<^verbatim>\<open><\<close> are false when either side is NaN. \<^verbatim>\<open>typeof NaN\<close> is
  \<^verbatim>\<open>"number"\<close>.
\<close>

datatype number = Num real | NaN

instantiation number :: "{comm_monoid_add, comm_monoid_mult}"
begin

definition zero_number :: number where
  "zero_number = Num 0"

definition one_number :: number where
  "one_number = Num 1"

fun plus_number :: "number \<Rightarrow> number \<Rightarrow> number" where
  "plus_number (Num a) (Num b) = Num (a + b)"
| "plus_number _ _ = NaN"

fun times_number :: "number \<Rightarrow> number \<Rightarrow> number" where
  "times_number (Num a) (Num b) = Num (a * b)"
| "times_number _ _ = NaN"

instance
proof
  fix x y z :: number
  show "1 * x = x"
    unfolding one_number_def by (induct x) auto
  show "x * y = y * x"
    by (induct x; induct y) auto
  show "x * y * z = x * (y * z)"
    by (induct x; induct y; induct z) auto
  show "0 + x = x"
    unfolding zero_number_def by (induct x) auto
  show "x + y = y + x"
    by (induct x; induct y) auto
  show "x + y + z = x + (y + z)"
    by (induct x; induct y; induct z) auto
qed

end

text \<open>\<^verbatim>\<open>a > b\<close> and \<^verbatim>\<open>a < b\<close> on numbers.\<close>

fun numberGt :: "number \<Rightarrow> number \<Rightarrow> bool" where
  "numberGt (Num a) (Num b) = (a > b)"
| "numberGt _ _ = False"

fun numberLt :: "number \<Rightarrow> number \<Rightarrow> bool" where
  "numberLt (Num a) (Num b) = (a < b)"
| "numberLt _ _ = False"

text \<open>
  \<^verbatim>\<open>a / b\<close> on numbers, for a divisor other than 0, which is how \<^verbatim>\<open>finishAverage\<close>
  uses it.
\<close>

fun numberDivide :: "number \<Rightarrow> number \<Rightarrow> number" where
  "numberDivide (Num a) (Num b) = Num (a / b)"
| "numberDivide _ _ = NaN"

text \<open>
  \<open>Value\<close> or \<open>PendingTask\<close>: what a read gives. The second parameter is the fiber a
  Pending carries.
\<close>

datatype ('v, 'f) task = Value 'v | PendingTask 'f

text \<open>
  \<open>CalcValue = Primitive | CalcObj | CalcFun\<close>. An object is a Range, an error object or
  an object of the host. Of a host object the model keeps what \<^verbatim>\<open>typeMap()[Readable]\<close>
  gives: no reader, or a reader, taken as a function of the property name that answers
  with a value or with a Pending on the formula cell at the given row and column.
\<close>

datatype calcvalue =
    Boolean bool
  | Number number
  | Str string
  | Fun
  | Obj calcobj
and calcobj =
    RangeObj range
  | ErrorObj errors
  | HostObj "(string \<Rightarrow> (calcvalue, int \<times> int) task) option"

subsection \<open>Runners and fibers\<close>

text \<open>
  \<open>FunctionRunner<Accum, Res> = [accumulator, run, finish]\<close>. The step function of the
  source closes over the runner and overwrites its first slot; the model's \<open>run\<close> takes
  the accumulator and gives the new one.
\<close>

record 'a runner =
  acc :: 'a
  run :: "'a \<Rightarrow> calcvalue \<Rightarrow> 'a"
  finish :: "'a \<Rightarrow> calcvalue"

text \<open>
  \<open>FunctionRunner<FunctionSkolem, Res>\<close>, the runner with its accumulator type packed:
  the source uses the accumulator types number (sum, product, count), a pair of numbers
  (average), number or undefined (max, min) and string (concat).
\<close>

datatype functionrunner =
    NumberRunner "number runner"
  | PairRunner "(number \<times> number) runner"
  | OptRunner "number option runner"
  | StringRunner "string runner"

text \<open>
  The Function Fiber, with the fields that \<^verbatim>\<open>runFunc\<close> reads and writes: \<^verbatim>\<open>state\<close>,
  \<^verbatim>\<open>range\<close>, \<^verbatim>\<open>row\<close>, \<^verbatim>\<open>column\<close> and \<^verbatim>\<open>runner\<close> (the declaration in
  \<^verbatim>\<open>types.ts\<close> names the operation \<^verbatim>\<open>flag\<close>, of type \<^verbatim>\<open>FunctionTask\<close>, the
  lower-case operation names). The field \<^verbatim>\<open>range\<close> is \<open>rangeF\<close> here.
\<close>

record functionfiber =
  state :: string
  rangeF :: range
  row :: int
  column :: int
  runner :: functionrunner

text \<open>\<open>Fiber = FormulaCell | FunctionFiber\<close>; a formula cell is named by its position.\<close>

datatype fiber = FormulaCell int int | FunctionFiber functionfiber

type_synonym content = "(calcvalue, fiber) task"

text \<open>
  The context: the host's \<^verbatim>\<open>read\<close>, the \<^verbatim>\<open>cache\<close> that \<^verbatim>\<open>runFunc\<close> and the
  Readable capability use, and the record of the calls of \<^verbatim>\<open>read\<close>. The origin point
  plays no part in this file.
\<close>

record rangecontext =
  read :: "int \<Rightarrow> int \<Rightarrow> content"
  cache :: "string \<rightharpoonup> content"
  reads :: "(int \<times> int) list"

definition contextRead :: "rangecontext \<Rightarrow> int \<Rightarrow> int \<Rightarrow> content \<times> rangecontext" where
  "contextRead ctx i j = (read ctx i j, ctx\<lparr>reads := reads ctx @ [(i, j)]\<rparr>)"

text \<open>Modelled from the spec: \<^verbatim>\<open>isPendingTask\<close> of \<^verbatim>\<open>./core\<close>, the test for the Pending marker.\<close>

fun isPendingTask :: "('v, 'f) task \<Rightarrow> bool" where
  "isPendingTask (PendingTask _) = True"
| "isPendingTask (Value _) = False"

text \<open>
  Modelled from the spec: \<^verbatim>\<open>makePendingFunction\<close> of \<^verbatim>\<open>./core\<close>, which builds the
  Function Fiber \<open>{aggregation op, target range, cursor (row, column), accumulator state}\<close>.
  The context argument is the one passed along explicitly.
\<close>

definition makePendingFunction ::
  "string \<Rightarrow> range \<Rightarrow> int \<Rightarrow> int \<Rightarrow> functionrunner \<Rightarrow> functionfiber" where
  "makePendingFunction name rg r c rn =
     \<lparr>state = name, rangeF = rg, row = r, column = c, runner = rn\<rparr>"

subsection \<open>The cache key\<close>

text \<open>A template literal prints an integer in decimal, with a minus sign when negative.\<close>

function showNat :: "nat \<Rightarrow> string" where
  "showNat n = (if n < 10 then [''0123456789'' ! n]
                else showNat (n div 10) @ [''0123456789'' ! (n mod 10)])"
  by pat_completeness auto
termination
  by (relation "measure (\<lambda>n. n)") auto

declare showNat.simps [simp del]

definition showInt :: "int \<Rightarrow> string" where
  "showInt i = (if i < 0 then ''-'' @ showNat (nat (- i)) else showNat (nat i))"

definition makeCacheKey :: "range \<Rightarrow> string \<Rightarrow> string" where
  "makeCacheKey rg prop =
     prop @ '';'' @ showInt (tlRow rg) @ '';'' @ showInt (tlCol rg) @ '';'' @
     showInt (height rg) @ '';'' @ showInt (width rg)"

subsection \<open>runFunc\<close>

definition createRunner :: "('a \<Rightarrow> calcvalue \<Rightarrow> 'a) \<Rightarrow> ('a \<Rightarrow> calcvalue) \<Rightarrow> 'a \<Rightarrow> 'a runner" where
  "createRunner initAccum finalise init = \<lparr>acc = init, run = initAccum, finish = finalise\<rparr>"

text \<open>\<^verbatim>\<open>run(content)\<close>: the step function updates the first slot of the runner.\<close>

definition step :: "'a runner \<Rightarrow> calcvalue \<Rightarrow> 'a runner" where
  "step rn v = rn\<lparr>acc := run rn (acc rn) v\<rparr>"

fun runStep :: "functionrunner \<Rightarrow> calcvalue \<Rightarrow> functionrunner" where
  "runStep (NumberRunner rn) v = NumberRunner (step rn v)"
| "runStep (PairRunner rn) v = PairRunner (step rn v)"
| "runStep (OptRunner rn) v = OptRunner (step rn v)"
| "runStep (StringRunner rn) v = StringRunner (step rn v)"

text \<open>\<^verbatim>\<open>finish(runner[0])\<close>.\<close>

fun finishRunner :: "functionrunner \<Rightarrow> calcvalue" where
  "finishRunner (NumberRunner rn) = finish rn (acc rn)"
| "finishRunner (PairRunner rn) = finish rn (acc rn)"
| "finishRunner (OptRunner rn) = finish rn (acc rn)"
| "finishRunner (StringRunner rn) = finish rn (acc rn)"

text \<open>
  The loop \<^verbatim>\<open>for (let j = from; j < endC; j += 1)\<close> over row \<open>i\<close>, which the source
  writes twice with the same body: it stops at the first Pending cell and gives its
  column.
\<close>

function scanRow ::
  "int \<Rightarrow> int \<Rightarrow> int \<Rightarrow> rangecontext \<Rightarrow> functionrunner
     \<Rightarrow> int option \<times> rangecontext \<times> functionrunner" where
  "scanRow i endC j ctx rn =
     (if j < endC then
        (case contextRead ctx i j of
           (PendingTask _, ctx') \<Rightarrow> (Some j, ctx', rn)
         | (Value v, ctx') \<Rightarrow> scanRow i endC (j + 1) ctx' (runStep rn v))
      else (None, ctx, rn))"
  by pat_completeness auto
termination
  by (relation "measure (\<lambda>(i, endC, j, ctx, rn). nat (endC - j))") auto

declare scanRow.simps [simp del]

text \<open>The loop \<^verbatim>\<open>for (let i = row + 1; i < endR; i += 1)\<close> over the full rows.\<close>

function scanRows ::
  "int \<Rightarrow> int \<Rightarrow> int \<Rightarrow> int \<Rightarrow> rangecontext \<Rightarrow> functionrunner
     \<Rightarrow> (int \<times> int) option \<times> rangecontext \<times> functionrunner" where
  "scanRows startCol endC endR i ctx rn =
     (if i < endR then
        (case scanRow i endC startCol ctx rn of
           (Some j, ctx', rn') \<Rightarrow> (Some (i, j), ctx', rn')
         | (None, ctx', rn') \<Rightarrow> scanRows startCol endC endR (i + 1) ctx' rn')
      else (None, ctx, rn))"
  by pat_completeness auto
termination
  by (relation "measure (\<lambda>(startCol, endC, endR, i, ctx, rn). nat (endR - i))") auto

declare scanRows.simps [simp del]

text \<open>\<^verbatim>\<open>return context.cache[makeCacheKey(range, fiber.state)] = x\<close>.\<close>

definition cacheStore :: "rangecontext \<Rightarrow> functionfiber \<Rightarrow> content \<Rightarrow> content \<times> rangecontext" where
  "cacheStore ctx fb x =
     (x, ctx\<lparr>cache := (cache ctx)(makeCacheKey (rangeF fb) (state fb) \<mapsto> x)\<rparr>)"

definition runFunc :: "rangecontext \<Rightarrow> functionfiber \<Rightarrow> content \<times> rangecontext" where
  "runFunc ctx fb =
     (let rg = rangeF fb;
          startCol = tlCol rg;
          endR = tlRow rg + height rg;
          endC = tlCol rg + width rg
      in case scanRow (row fb) endC (column fb) ctx (runner fb) of
           (Some j, ctx1, rn1) \<Rightarrow>
             (let fb1 = fb\<lparr>column := j, runner := rn1\<rparr>
              in cacheStore ctx1 fb1 (PendingTask (FunctionFiber fb1)))
         | (None, ctx1, rn1) \<Rightarrow>
             (case scanRows startCol endC endR (row fb + 1) ctx1 rn1 of
                (Some (i, j), ctx2, rn2) \<Rightarrow>
                  (let fb2 = fb\<lparr>row := i, column := j, runner := rn2\<rparr>
                   in cacheStore ctx2 fb2 (PendingTask (FunctionFiber fb2)))
              | (None, ctx2, rn2) \<Rightarrow>
                  cacheStore ctx2 (fb\<lparr>runner := rn2\<rparr>) (Value (finishRunner rn2))))"

subsection \<open>The runners\<close>

text \<open>
  \<^verbatim>\<open>id\<close> is used at the types number and string, where a result is the cell value
  \<open>Number\<close> or \<open>Str\<close> of the accumulator; \<^verbatim>\<open>fromUndefined\<close> gives a number.
\<close>

definition fromUndefined :: "number option \<Rightarrow> number" where
  "fromUndefined result = (case result of None \<Rightarrow> Num 0 | Some r \<Rightarrow> r)"

definition createSum :: "number \<Rightarrow> functionrunner" where
  "createSum init = NumberRunner (createRunner
     (\<lambda>result n. case n of Number x \<Rightarrow> result + x | _ \<Rightarrow> result) Number init)"

definition createProduct :: "number \<Rightarrow> functionrunner" where
  "createProduct init = NumberRunner (createRunner
     (\<lambda>result n. case n of Number x \<Rightarrow> result * x | _ \<Rightarrow> result) Number init)"

definition createCount :: "number \<Rightarrow> functionrunner" where
  "createCount init = NumberRunner (createRunner
     (\<lambda>result n. case n of Number x \<Rightarrow> result + Num 1 | _ \<Rightarrow> result) Number init)"

definition finishAverage :: "number \<times> number \<Rightarrow> calcvalue" where
  "finishAverage value =
     (case value of (total', finalCount) \<Rightarrow>
        if finalCount = Num 0 then Obj (ErrorObj div0)
        else Number (numberDivide total' finalCount))"

definition createAverage :: "number \<times> number \<Rightarrow> functionrunner" where
  "createAverage init = PairRunner (createRunner
     (\<lambda>result n. case n of Number x \<Rightarrow> (fst result + x, snd result + Num 1) | _ \<Rightarrow> result)
     finishAverage init)"

definition createMax :: "number option \<Rightarrow> functionrunner" where
  "createMax init = OptRunner (createRunner
     (\<lambda>result n. case n of
        Number x \<Rightarrow> (case result of None \<Rightarrow> Some x
                       | Some r \<Rightarrow> if numberGt x r then Some x else result)
      | _ \<Rightarrow> result)
     (\<lambda>result. Number (fromUndefined result)) init)"

definition createMin :: "number option \<Rightarrow> functionrunner" where
  "createMin init = OptRunner (createRunner
     (\<lambda>result n. case n of
        Number x \<Rightarrow> (case result of None \<Rightarrow> Some x
                       | Some r \<Rightarrow> if numberLt x r then Some x else result)
      | _ \<Rightarrow> result)
     (\<lambda>result. Number (fromUndefined result)) init)"

definition createConcat :: "string \<Rightarrow> functionrunner" where
  "createConcat init = StringRunner (createRunner
     (\<lambda>result s. case s of Str x \<Rightarrow> result @ x | _ \<Rightarrow> result) Str init)"

subsection \<open>Core aggregation functions over ranges\<close>

text \<open>\<^verbatim>\<open>someTask || makePendingFunction(...)\<close>: the fiber to resume, or a fresh one.\<close>

definition rangeSum :: "range \<Rightarrow> rangecontext \<Rightarrow> functionfiber option \<Rightarrow> content \<times> rangecontext" where
  "rangeSum rg ctx someTask = runFunc ctx (case someTask of Some t \<Rightarrow> t
     | None \<Rightarrow> makePendingFunction ''sum'' rg (tlRow rg) (tlCol rg) (createSum (Num 0)))"

definition rangeProduct :: "range \<Rightarrow> rangecontext \<Rightarrow> functionfiber option \<Rightarrow> content \<times> rangecontext" where
  "rangeProduct rg ctx someTask = runFunc ctx (case someTask of Some t \<Rightarrow> t
     | None \<Rightarrow> makePendingFunction ''product'' rg (tlRow rg) (tlCol rg) (createProduct (Num 1)))"

definition rangeCount :: "range \<Rightarrow> rangecontext \<Rightarrow> functionfiber option \<Rightarrow> content \<times> rangecontext" where
  "rangeCount rg ctx someTask = runFunc ctx (case someTask of Some t \<Rightarrow> t
     | None \<Rightarrow> makePendingFunction ''count'' rg (tlRow rg) (tlCol rg) (createCount (Num 0)))"

definition rangeAverage :: "range \<Rightarrow> rangecontext \<Rightarrow> functionfiber option \<Rightarrow> content \<times> rangecontext" where
  "rangeAverage rg ctx someTask = runFunc ctx (case someTask of Some t \<Rightarrow> t
     | None \<Rightarrow> makePendingFunction ''average'' rg (tlRow rg) (tlCol rg) (createAverage (Num 0, Num 0)))"

definition rangeMax :: "range \<Rightarrow> rangecontext \<Rightarrow> functionfiber option \<Rightarrow> content \<times> rangecontext" where
  "rangeMax rg ctx someTask = runFunc ctx (case someTask of Some t \<Rightarrow> t
     | None \<Rightarrow> makePendingFunction ''max'' rg (tlRow rg) (tlCol rg) (createMax None))"

definition rangeMin :: "range \<Rightarrow> rangecontext \<Rightarrow> functionfiber option \<Rightarrow> content \<times> rangecontext" where
  "rangeMin rg ctx someTask = runFunc ctx (case someTask of Some t \<Rightarrow> t
     | None \<Rightarrow> makePendingFunction ''min'' rg (tlRow rg) (tlCol rg) (createMin None))"

definition rangeConcat :: "range \<Rightarrow> rangecontext \<Rightarrow> functionfiber option \<Rightarrow> content \<times> rangecontext" where
  "rangeConcat rg ctx someTask = runFunc ctx (case someTask of Some t \<Rightarrow> t
     | None \<Rightarrow> makePendingFunction ''concat'' rg (tlRow rg) (tlCol rg) (createConcat []))"

subsection \<open>The aggregation table\<close>

type_synonym freshAggregation = "range \<Rightarrow> rangecontext \<Rightarrow> content \<times> rangecontext"

definition aggregations :: "(string \<times> freshAggregation) list" where
  "aggregations =
     [(''sum'', \<lambda>rg ctx. rangeSum rg ctx None),
      (''product'', \<lambda>rg ctx. rangeProduct rg ctx None),
      (''count'', \<lambda>rg ctx. rangeCount rg ctx None),
      (''average'', \<lambda>rg ctx. rangeAverage rg ctx None),
      (''max'', \<lambda>rg ctx. rangeMax rg ctx None),
      (''min'', \<lambda>rg ctx. rangeMin rg ctx None),
      (''concat'', \<lambda>rg ctx. rangeConcat rg ctx None),
      (''SUM'', \<lambda>rg ctx. rangeSum rg ctx None),
      (''PRODUCT'', \<lambda>rg ctx. rangeProduct rg ctx None),
      (''COUNT'', \<lambda>rg ctx. rangeCount rg ctx None),
      (''AVERAGE'', \<lambda>rg ctx. rangeAverage rg ctx None),
      (''MAX'', \<lambda>rg ctx. rangeMax rg ctx None),
      (''MIN'', \<lambda>rg ctx. rangeMin rg ctx None),
      (''CONCAT'', \<lambda>rg ctx. rangeConcat rg ctx None)]"

text \<open>
  \<^verbatim>\<open>aggregations\<close> is an object literal, so \<^verbatim>\<open>aggregations[message]\<close> is a property
  read of JavaScript: where the object has no own property of that name the read goes on
  to its prototype, \<^verbatim>\<open>Object.prototype\<close>, and is \<^verbatim>\<open>undefined\<close> only when the name
  is not found there either. These are the names that \<^verbatim>\<open>Object.prototype\<close> defines.
\<close>

definition objectPrototype :: "string list" where
  "objectPrototype =
     [''constructor'', ''hasOwnProperty'', ''isPrototypeOf'', ''propertyIsEnumerable'',
      ''toLocaleString'', ''toString'', ''valueOf'', ''__proto__'',
      ''__defineGetter__'', ''__defineSetter__'', ''__lookupGetter__'', ''__lookupSetter__'']"

datatype property = Own freshAggregation | Inherited string

definition aggregationsGet :: "string \<Rightarrow> property option" where
  "aggregationsGet message =
     (case map_of aggregations message of
        Some fn \<Rightarrow> Some (Own fn)
      | None \<Rightarrow> if message \<in> set objectPrototype then Some (Inherited message) else None)"

subsection \<open>The capabilities of a Range\<close>

text \<open>
  What a read of a property gives: the value or Pending it returns, or, for a name found
  on \<^verbatim>\<open>Object.prototype\<close>, the application of that inherited member to the receiver
  and the context, which the model does not follow further.
\<close>

datatype readresult = Returns content | AppliesInherited string

text \<open>The answer of a host object's reader as a \<open>content\<close>.\<close>

fun hostAnswer :: "(calcvalue, int \<times> int) task \<Rightarrow> content" where
  "hostAnswer (Value v) = Value v"
| "hostAnswer (PendingTask (i, j)) = PendingTask (FormulaCell i j)"

text \<open>
  \<^verbatim>\<open>rangeTypeMap[TypeName.Readable].read\<close>. In the default case the reader of the anchor
  cell's object is the value's own \<^verbatim>\<open>typeMap()[Readable]\<close>: for a Range this very
  function, for a host object its reader, for an error object none. The read of a Range
  whose anchor cell holds a Range anchored at itself does not return, which is the result
  \<open>None\<close>.
\<close>

partial_function (option) readable_read ::
  "range \<Rightarrow> string \<Rightarrow> rangecontext \<Rightarrow> (readresult \<times> rangecontext) option" where
  "readable_read receiver message ctx =
     (case aggregationsGet message of
        Some p \<Rightarrow>
          (case cache ctx (makeCacheKey receiver message) of
             Some value \<Rightarrow> Some (Returns value, ctx)
           | None \<Rightarrow>
               (case p of
                  Own fn \<Rightarrow> (case fn receiver ctx of (r, ctx') \<Rightarrow> Some (Returns r, ctx'))
                | Inherited name \<Rightarrow> Some (AppliesInherited name, ctx)))
      | None \<Rightarrow>
          if message = ''row'' \<or> message = ''ROW'' then
            Some (Returns (Value (Number (Num (of_int (tlRow receiver + 1))))), ctx)
          else if message = ''column'' \<or> message = ''COLUMN'' then
            Some (Returns (Value (Number (Num (of_int (tlCol receiver + 1))))), ctx)
          else
            (case contextRead ctx (tlRow receiver) (tlCol receiver) of
               (PendingTask f, ctx') \<Rightarrow> Some (Returns (PendingTask f), ctx')
             | (Value (Obj (RangeObj anchor)), ctx') \<Rightarrow> readable_read anchor message ctx'
             | (Value (Obj (HostObj (Some reader))), ctx') \<Rightarrow>
                 Some (Returns (hostAnswer (reader message)), ctx')
             | (Value _, ctx') \<Rightarrow> Some (Returns (Value (Obj (ErrorObj unknownField))), ctx')))"

text \<open>\<^verbatim>\<open>rangeTypeMap[TypeName.Reference].dereference\<close>.\<close>

definition reference_dereference :: "range \<Rightarrow> rangecontext \<Rightarrow> content \<times> rangecontext" where
  "reference_dereference value ctx = contextRead ctx (tlRow value) (tlCol value)"

subsection \<open>fromReference\<close>

record reference =
  row1 :: int
  col1 :: int
  row2 :: "int option"
  col2 :: "int option"

definition fromReference :: "reference \<Rightarrow> range" where
  "fromReference ref =
     (case (row2 ref, col2 ref) of
        (Some r2, Some c2) \<Rightarrow>
          \<lparr>tlRow = (if row1 ref < r2 then row1 ref else r2),
           tlCol = (if col1 ref < c2 then col1 ref else c2),
           height = \<bar>row1 ref - r2\<bar> + 1,
           width = \<bar>col1 ref - c2\<bar> + 1\<rparr>
      | _ \<Rightarrow> \<lparr>tlRow = row1 ref, tlCol = col1 ref, height = 1, width = 1\<rparr>)"

subsection \<open>The scan, described on the row-major list of cells\<close>

text \<open>
  The cells of a range in row-major order, and the cells that remain from a cursor: those
  of the cursor's row from the cursor's column on, then the rows below.
\<close>

definition rowCells :: "int \<Rightarrow> int \<Rightarrow> int \<Rightarrow> (int \<times> int) list" where
  "rowCells i a b = map (Pair i) [a..b - 1]"

definition rowMajor :: "range \<Rightarrow> (int \<times> int) list" where
  "rowMajor rg =
     concat (map (\<lambda>i. rowCells i (tlCol rg) (tlCol rg + width rg))
                 [tlRow rg..tlRow rg + height rg - 1])"

definition remaining :: "range \<Rightarrow> int \<Rightarrow> int \<Rightarrow> (int \<times> int) list" where
  "remaining rg r c = filter (\<lambda>(i, j). r < i \<or> (i = r \<and> c \<le> j)) (rowMajor rg)"

definition pendingAt :: "(int \<Rightarrow> int \<Rightarrow> content) \<Rightarrow> int \<times> int \<Rightarrow> bool" where
  "pendingAt rd c = isPendingTask (rd (fst c) (snd c))"

text \<open>The runner after the step function has been applied to the values of the cells, in order.\<close>

definition accumulate ::
  "(int \<Rightarrow> int \<Rightarrow> content) \<Rightarrow> functionrunner \<Rightarrow> (int \<times> int) list \<Rightarrow> functionrunner" where
  "accumulate rd rn cs =
     foldl (\<lambda>rn c. case rd (fst c) (snd c) of Value v \<Rightarrow> runStep rn v | PendingTask _ \<Rightarrow> rn) rn cs"

text \<open>
  Resuming a fiber, in the words of the specification: the remaining cells are read in
  row-major order up to and including the first Pending one; the values read before it
  are accumulated; at a Pending cell the fiber takes that cell as its cursor and is stored
  as Pending under the key of its operation and range; when no cell is Pending the
  finisher's result is stored under that key.
\<close>

definition resumeSpec :: "rangecontext \<Rightarrow> functionfiber \<Rightarrow> content \<times> rangecontext" where
  "resumeSpec ctx fb =
     (let cells = remaining (rangeF fb) (row fb) (column fb);
          before = takeWhile (\<lambda>c. \<not> pendingAt (read ctx) c) cells;
          rn = accumulate (read ctx) (runner fb) before;
          key = makeCacheKey (rangeF fb) (state fb)
      in case find (pendingAt (read ctx)) cells of
           Some (i, j) \<Rightarrow>
             (let p = PendingTask (FunctionFiber (fb\<lparr>row := i, column := j, runner := rn\<rparr>))
              in (p, ctx\<lparr>cache := (cache ctx)(key \<mapsto> p), reads := reads ctx @ before @ [(i, j)]\<rparr>))
         | None \<Rightarrow>
             (let v = Value (finishRunner rn)
              in (v, ctx\<lparr>cache := (cache ctx)(key \<mapsto> v), reads := reads ctx @ before\<rparr>)))"

text \<open>
  The scan of a list of cells, as the loops of \<open>runFunc\<close> perform it, and the cells of
  the rows from \<open>i\<close> on: both serve the proofs that relate the loops to \<open>resumeSpec\<close>.
\<close>

fun scanList ::
  "(int \<Rightarrow> int \<Rightarrow> content) \<Rightarrow> functionrunner \<Rightarrow> (int \<times> int) list
     \<Rightarrow> (int \<times> int) option \<times> functionrunner \<times> (int \<times> int) list" where
  "scanList rd rn [] = (None, rn, [])"
| "scanList rd rn (c # cs) =
     (case rd (fst c) (snd c) of
        PendingTask _ \<Rightarrow> (Some c, rn, [c])
      | Value v \<Rightarrow> (case scanList rd (runStep rn v) cs of (b, rn', vis) \<Rightarrow> (b, rn', c # vis)))"

definition rowsCells :: "int \<Rightarrow> int \<Rightarrow> int \<Rightarrow> int \<Rightarrow> (int \<times> int) list" where
  "rowsCells startCol endC i endR = concat (map (\<lambda>i. rowCells i startCol endC) [i..endR - 1])"

text \<open>The values of the resolved cells of a list, and the numbers and strings among values.\<close>

definition cellValues :: "(int \<Rightarrow> int \<Rightarrow> content) \<Rightarrow> (int \<times> int) list \<Rightarrow> calcvalue list" where
  "cellValues rd cs =
     concat (map (\<lambda>c. case rd (fst c) (snd c) of Value v \<Rightarrow> [v] | PendingTask _ \<Rightarrow> []) cs)"

definition numbersOf :: "calcvalue list \<Rightarrow> number list" where
  "numbersOf vs = concat (map (\<lambda>v. case v of Number x \<Rightarrow> [x] | _ \<Rightarrow> []) vs)"

definition stringsOf :: "calcvalue list \<Rightarrow> string list" where
  "stringsOf vs = concat (map (\<lambda>v. case v of Str x \<Rightarrow> [x] | _ \<Rightarrow> []) vs)"

fun isNumber :: "calcvalue \<Rightarrow> bool" where
  "isNumber (Number _) = True"
| "isNumber _ = False"

fun isString :: "calcvalue \<Rightarrow> bool" where
  "isString (Str _) = True"
| "isString _ = False"

text \<open>Every cell of the range is resolved: no read of it gives Pending.\<close>

definition resolved :: "rangecontext \<Rightarrow> range \<Rightarrow> bool" where
  "resolved ctx rg = list_all (\<lambda>c. \<not> pendingAt (read ctx) c) (rowMajor rg)"

text \<open>The accumulator of max and of min after the numbers of a list, in order.\<close>

definition largest :: "number option \<Rightarrow> number list \<Rightarrow> number option" where
  "largest m ns =
     foldl (\<lambda>m x. case m of None \<Rightarrow> Some x | Some r \<Rightarrow> if numberGt x r then Some x else m) m ns"

definition smallest :: "number option \<Rightarrow> number list \<Rightarrow> number option" where
  "smallest m ns =
     foldl (\<lambda>m x. case m of None \<Rightarrow> Some x | Some r \<Rightarrow> if numberLt x r then Some x else m) m ns"

text \<open>The reals among numbers, that is, the numbers other than NaN.\<close>

definition realsOf :: "number list \<Rightarrow> real list" where
  "realsOf ns = concat (map (\<lambda>n. case n of Num r \<Rightarrow> [r] | NaN \<Rightarrow> []) ns)"

text \<open>
  The read of an aggregation property as the table and the cache decide it: the entry of
  the cache under the key of the property name and the range when there is one, else the
  aggregation on a fresh fiber.
\<close>

definition cachedOrFresh ::
  "freshAggregation \<Rightarrow> range \<Rightarrow> string \<Rightarrow> rangecontext \<Rightarrow> (readresult \<times> rangecontext) option" where
  "cachedOrFresh fn rg message ctx =
     (case cache ctx (makeCacheKey rg message) of
        Some value \<Rightarrow> Some (Returns value, ctx)
      | None \<Rightarrow> (case fn rg ctx of (r, ctx') \<Rightarrow> Some (Returns r, ctx')))"

text \<open>
  The operations of the aggregation table, each with its lower-case and its upper-case
  name and its aggregation function.
\<close>

definition operations :: "(string \<times> string \<times> freshAggregation) list" where
  "operations =
     [(''sum'', ''SUM'', \<lambda>rg ctx. rangeSum rg ctx None),
      (''product'', ''PRODUCT'', \<lambda>rg ctx. rangeProduct rg ctx None),
      (''count'', ''COUNT'', \<lambda>rg ctx. rangeCount rg ctx None),
      (''average'', ''AVERAGE'', \<lambda>rg ctx. rangeAverage rg ctx None),
      (''max'', ''MAX'', \<lambda>rg ctx. rangeMax rg ctx None),
      (''min'', ''MIN'', \<lambda>rg ctx. rangeMin rg ctx None),
      (''concat'', ''CONCAT'', \<lambda>rg ctx. rangeConcat rg ctx None)]"

text \<open>A read that invokes an aggregation returns what the aggregation returns.\<close>

definition invoked ::
  "freshAggregation \<Rightarrow> range \<Rightarrow> rangecontext \<Rightarrow> (readresult \<times> rangecontext) option" where
  "invoked fn rg ctx = (case fn rg ctx of (r, ctx') \<Rightarrow> Some (Returns r, ctx'))"

subsection \<open>Example contexts: the specification's A1:A3 = [1, 2, Pending], and others\<close>

definition exampleRange :: range where
  "exampleRange = \<lparr>tlRow = 0, tlCol = 0, height = 3, width = 1\<rparr>"

definition exampleCells :: "content \<Rightarrow> int \<Rightarrow> int \<Rightarrow> content" where
  "exampleCells third i j =
     (if i = 0 \<and> j = 0 then Value (Number (Num 1))
      else if i = 1 \<and> j = 0 then Value (Number (Num 2))
      else if i = 2 \<and> j = 0 then third
      else Value (Str []))"

definition exampleContext :: "content \<Rightarrow> rangecontext" where
  "exampleContext third = \<lparr>read = exampleCells third, cache = Map.empty, reads = []\<rparr>"

definition exampleFiber :: functionfiber where
  "exampleFiber = makePendingFunction ''sum'' exampleRange 2 0 (createSum (Num 3))"

text \<open>A context in which every cell holds the same content and the cache is empty.\<close>

definition constContext :: "content \<Rightarrow> rangecontext" where
  "constContext x = \<lparr>read = (\<lambda>i j. x), cache = Map.empty, reads = []\<rparr>"

text \<open>
  A context whose column 0 holds the given values from row 0 on; every other cell holds
  the empty string, and the cache is empty.
\<close>

definition columnContext :: "calcvalue list \<Rightarrow> rangecontext" where
  "columnContext vs =
     \<lparr>read = (\<lambda>i j. if j = 0 \<and> 0 \<le> i \<and> i < int (length vs) then Value (vs ! nat i)
                     else Value (Str [])),
      cache = Map.empty, reads = []\<rparr>"

text \<open>A host object whose reader answers every property with the property's name.\<close>

definition echoObject :: calcobj where
  "echoObject = HostObj (Some (\<lambda>property. Value (Str property)))"

text \<open>
  The context of the example after a first request for the sum: the fiber, blocked at the
  third cell, is in the cache, and the three cells have been read.
\<close>

definition blockedContext :: rangecontext where
  "blockedContext =
     (exampleContext (PendingTask (FormulaCell 2 0)))
       \<lparr>cache := [''sum;0;0;3;1'' \<mapsto> PendingTask (FunctionFiber exampleFiber)],
        reads := [(0, 0), (1, 0), (2, 0)]\<rparr>"

text \<open>
  The context of the example, with the given content in the third cell, after the sum 6
  has been stored in the cache and the three cells have been read.
\<close>

definition finishedContext :: "content \<Rightarrow> rangecontext" where
  "finishedContext third =
     (exampleContext third)
       \<lparr>cache := [''sum;0;0;3;1'' \<mapsto> Value (Number (Num 6))],
        reads := [(0, 0), (1, 0), (2, 0)]\<rparr>"

section \<open>Properties\<close>

subsection \<open>The loops of runFunc scan the remaining cells\<close>

lemma scanList_append:
  "scanList rd rn (xs @ ys) =
     (case scanList rd rn xs of
        (Some c, rn', vis) \<Rightarrow> (Some c, rn', vis)
      | (None, rn', vis) \<Rightarrow>
          (case scanList rd rn' ys of (b, rn'', vis') \<Rightarrow> (b, rn'', vis @ vis')))"
  by (induction xs arbitrary: rn) (auto split: task.splits prod.splits option.splits)

lemma scanList_described:
  "scanList rd rn cs =
     (find (pendingAt rd) cs,
      accumulate rd rn (takeWhile (\<lambda>c. \<not> pendingAt rd c) cs),
      takeWhile (\<lambda>c. \<not> pendingAt rd c) cs @
        (case find (pendingAt rd) cs of Some c \<Rightarrow> [c] | None \<Rightarrow> []))"
  by (induction cs arbitrary: rn)
     (auto simp: pendingAt_def accumulate_def split: task.splits prod.splits option.splits)

lemma scanRow_scanList:
  "scanRow i endC j ctx rn =
     (case scanList (read ctx) rn (rowCells i j endC) of
        (b, rn', vis) \<Rightarrow> (map_option snd b, ctx\<lparr>reads := reads ctx @ vis\<rparr>, rn'))"
proof (induction i endC j ctx rn rule: scanRow.induct)
  case (1 i endC j ctx rn)
  show ?case
  proof (cases "j < endC")
    case False
    then show ?thesis
      by (subst scanRow.simps) (simp add: rowCells_def)
  next
    case True
    then have cells: "rowCells i j endC = (i, j) # rowCells i (j + 1) endC"
      by (simp add: rowCells_def upto_rec1)
    show ?thesis
    proof (cases "read ctx i j")
      case (PendingTask f)
      with True cells show ?thesis
        by (subst scanRow.simps) (simp add: contextRead_def)
    next
      case (Value v)
      with True have "scanRow i endC j ctx rn =
          scanRow i endC (j + 1) (ctx\<lparr>reads := reads ctx @ [(i, j)]\<rparr>) (runStep rn v)"
        by (subst scanRow.simps) (simp add: contextRead_def)
      also have "\<dots> = (case scanList (read ctx) (runStep rn v) (rowCells i (j + 1) endC) of
          (b, rn', vis) \<Rightarrow> (map_option snd b, ctx\<lparr>reads := reads ctx @ (i, j) # vis\<rparr>, rn'))"
        using "1.IH" [OF True, of "Value v" "ctx\<lparr>reads := reads ctx @ [(i, j)]\<rparr>" v] Value
        by (simp add: contextRead_def split: prod.splits)
      finally show ?thesis
        using Value cells by (simp split: prod.splits)
    qed
  qed
qed

lemma scanRows_scanList:
  "scanRows startCol endC endR i ctx rn =
     (case scanList (read ctx) rn (rowsCells startCol endC i endR) of
        (b, rn', vis) \<Rightarrow> (b, ctx\<lparr>reads := reads ctx @ vis\<rparr>, rn'))"
proof (induction startCol endC endR i ctx rn rule: scanRows.induct)
  case (1 startCol endC endR i ctx rn)
  show ?case
  proof (cases "i < endR")
    case False
    then show ?thesis
      by (subst scanRows.simps) (simp add: rowsCells_def)
  next
    case True
    then have cells: "rowsCells startCol endC i endR =
        rowCells i startCol endC @ rowsCells startCol endC (i + 1) endR"
      by (simp add: rowsCells_def upto_rec1)
    obtain b rn1 vis where row: "scanList (read ctx) rn (rowCells i startCol endC) = (b, rn1, vis)"
      by (cases "scanList (read ctx) rn (rowCells i startCol endC)") auto
    show ?thesis
    proof (cases b)
      case (Some c)
      have "fst c = i"
        using row Some by (auto simp: scanList_described rowCells_def dest!: find_Some_iff [THEN iffD1] )
      then obtain j where "c = (i, j)" by (cases c) auto
      with True row Some cells show ?thesis
        by (subst scanRows.simps) (simp add: scanRow_scanList scanList_append)
    next
      case None
      have step: "scanRow i endC startCol ctx rn = (None, ctx\<lparr>reads := reads ctx @ vis\<rparr>, rn1)"
        using row None by (simp add: scanRow_scanList)
      have "scanRows startCol endC endR i ctx rn =
          scanRows startCol endC endR (i + 1) (ctx\<lparr>reads := reads ctx @ vis\<rparr>) rn1"
        using True step by (subst scanRows.simps) simp
      also have "\<dots> = (case scanList (read ctx) rn1 (rowsCells startCol endC (i + 1) endR) of
          (b, rn', vis') \<Rightarrow> (b, ctx\<lparr>reads := reads ctx @ vis @ vis'\<rparr>, rn'))"
        using "1.IH" [OF True step [symmetric] refl refl] by (simp split: prod.splits)
      finally show ?thesis
        using row None cells by (simp add: scanList_append split: prod.splits)
    qed
  qed
qed

lemma runFunc_scanList:
  "runFunc ctx fb =
     (let rg = rangeF fb;
          endR = tlRow rg + height rg;
          endC = tlCol rg + width rg;
          key = makeCacheKey rg (state fb)
      in case scanList (read ctx) (runner fb)
                (rowCells (row fb) (column fb) endC @ rowsCells (tlCol rg) endC (row fb + 1) endR) of
           (Some (i, j), rn, vis) \<Rightarrow>
             (let p = PendingTask (FunctionFiber (fb\<lparr>row := i, column := j, runner := rn\<rparr>))
              in (p, ctx\<lparr>cache := (cache ctx)(key \<mapsto> p), reads := reads ctx @ vis\<rparr>))
         | (None, rn, vis) \<Rightarrow>
             (let v = Value (finishRunner rn)
              in (v, ctx\<lparr>cache := (cache ctx)(key \<mapsto> v), reads := reads ctx @ vis\<rparr>)))"
proof -
  let ?endC = "tlCol (rangeF fb) + width (rangeF fb)"
  obtain b rn1 vis where row:
    "scanList (read ctx) (runner fb) (rowCells (row fb) (column fb) ?endC) = (b, rn1, vis)"
    by (cases "scanList (read ctx) (runner fb) (rowCells (row fb) (column fb) ?endC)") auto
  show ?thesis
  proof (cases b)
    case (Some c)
    have "fst c = row fb"
      using row Some by (auto simp: scanList_described rowCells_def dest!: find_Some_iff [THEN iffD1])
    then obtain j where "c = (row fb, j)" by (cases c) auto
    with row Some show ?thesis
      by (simp add: runFunc_def scanRow_scanList scanList_append cacheStore_def Let_def)
  next
    case None
    with row show ?thesis
      by (simp add: runFunc_def scanRow_scanList scanRows_scanList scanList_append
            cacheStore_def Let_def split: prod.splits option.splits)
  qed
qed

text \<open>The remaining cells are the rest of the cursor's row and the rows below.\<close>

lemma filter_upto_ge:
  "a \<le> c \<Longrightarrow> filter (\<lambda>j. c \<le> j) [a..b] = [c..b]"
proof (cases "c \<le> b")
  case True
  assume "a \<le> c"
  with True have "[a..b] = [a..c - 1] @ [c..b]"
    by (simp add: upto_split1)
  then show ?thesis
    by (simp add: filter_empty_conv cong: filter_cong)
next
  case False
  then show ?thesis
    by (simp add: filter_empty_conv)
qed

lemma remaining_row_above:
  "i < r \<Longrightarrow> filter (\<lambda>(i, j). r < i \<or> (i = r \<and> c \<le> j)) (rowCells i a b) = []"
  by (auto simp: rowCells_def filter_empty_conv)

lemma remaining_row_below:
  "r < i \<Longrightarrow> filter (\<lambda>(i, j). r < i \<or> (i = r \<and> c \<le> j)) (rowCells i a b) = rowCells i a b"
  by (auto simp: rowCells_def filter_id_conv)

lemma remaining_row_cursor:
  "a \<le> c \<Longrightarrow> filter (\<lambda>(i, j). r < i \<or> (i = r \<and> c \<le> j)) (rowCells r a b) = rowCells r c b"
  using filter_upto_ge [of a c "b - 1"]
  by (simp add: rowCells_def filter_map comp_def)

lemma remaining_cells:
  assumes "tlRow rg \<le> r" and "r < tlRow rg + height rg" and "tlCol rg \<le> c"
  shows "remaining rg r c =
           rowCells r c (tlCol rg + width rg) @
           rowsCells (tlCol rg) (tlCol rg + width rg) (r + 1) (tlRow rg + height rg)"
proof -
  let ?P = "\<lambda>(i, j). r < i \<or> (i = r \<and> c \<le> j)"
  let ?row = "\<lambda>i. rowCells i (tlCol rg) (tlCol rg + width rg)"
  have rows: "[tlRow rg..tlRow rg + height rg - 1] =
      [tlRow rg..r - 1] @ r # [r + 1..tlRow rg + height rg - 1]"
    using assms by (simp add: upto_split3)
  have above: "concat (map (\<lambda>i. filter ?P (?row i)) [tlRow rg..r - 1]) = []"
    by (simp add: remaining_row_above)
  have below: "map (\<lambda>i. filter ?P (?row i)) [r + 1..tlRow rg + height rg - 1] =
      map ?row [r + 1..tlRow rg + height rg - 1]"
    by (simp add: remaining_row_below)
  have "remaining rg r c = concat (map (\<lambda>i. filter ?P (?row i)) [tlRow rg..tlRow rg + height rg - 1])"
    by (simp add: remaining_def rowMajor_def filter_concat comp_def)
  also have "\<dots> = concat (map (\<lambda>i. filter ?P (?row i)) [tlRow rg..r - 1]) @ filter ?P (?row r) @
      concat (map (\<lambda>i. filter ?P (?row i)) [r + 1..tlRow rg + height rg - 1])"
    by (simp only: rows map_append list.map concat_append concat.simps)
  also have "\<dots> = rowCells r c (tlCol rg + width rg) @
      concat (map ?row [r + 1..tlRow rg + height rg - 1])"
    by (simp only: above below remaining_row_cursor [OF assms(3)] append_Nil)
  finally show ?thesis
    by (simp add: rowsCells_def)
qed

lemma runFunc_resumeSpec:
  assumes "tlRow (rangeF fb) \<le> row fb" and "row fb < tlRow (rangeF fb) + height (rangeF fb)"
    and "tlCol (rangeF fb) \<le> column fb"
  shows "runFunc ctx fb = resumeSpec ctx fb"
  unfolding runFunc_scanList resumeSpec_def remaining_cells [OF assms] scanList_described
  by (simp add: Let_def split: option.splits)

lemma distinct_rowCells: "distinct (rowCells i a b)"
  by (simp add: rowCells_def distinct_map inj_on_def)

lemma distinct_rows: "distinct rs \<Longrightarrow> distinct (concat (map (\<lambda>i. rowCells i a b) rs))"
proof (induction rs)
  case Nil
  then show ?case by simp
next
  case (Cons i rs)
  have "set (rowCells i a b) \<inter> set (concat (map (\<lambda>i. rowCells i a b) rs)) = {}"
    using Cons.prems by (auto simp: rowCells_def)
  with Cons show ?case
    by (simp add: distinct_rowCells)
qed

lemma distinct_rowMajor: "distinct (rowMajor rg)"
  by (simp add: rowMajor_def distinct_rows)

lemma distinct_remaining: "distinct (remaining rg r c)"
  by (simp add: remaining_def distinct_rowMajor)

text \<open>A fresh fiber over a range whose cells are all resolved.\<close>

lemma remaining_fresh: "remaining rg (tlRow rg) (tlCol rg) = rowMajor rg"
  by (auto simp: remaining_def rowMajor_def rowCells_def filter_id_conv)

lemma accumulate_resolved:
  "list_all (\<lambda>c. \<not> pendingAt rd c) cs \<Longrightarrow> accumulate rd rn cs = foldl runStep rn (cellValues rd cs)"
  by (induction cs arbitrary: rn)
     (auto simp: accumulate_def cellValues_def pendingAt_def split: task.splits)

lemma runFunc_fresh_resolved:
  assumes "1 \<le> height rg" and "resolved ctx rg"
  shows "runFunc ctx (makePendingFunction name rg (tlRow rg) (tlCol rg) rn) =
     (Value (finishRunner (foldl runStep rn (cellValues (read ctx) (rowMajor rg)))),
      ctx\<lparr>cache := (cache ctx)(makeCacheKey rg name \<mapsto>
              Value (finishRunner (foldl runStep rn (cellValues (read ctx) (rowMajor rg))))),
          reads := reads ctx @ rowMajor rg\<rparr>)"
proof -
  let ?fb = "makePendingFunction name rg (tlRow rg) (tlCol rg) rn"
  have all: "list_all (\<lambda>c. \<not> pendingAt (read ctx) c) (rowMajor rg)"
    using assms(2) by (simp add: resolved_def)
  then have tw: "takeWhile (\<lambda>c. \<not> pendingAt (read ctx) c) (rowMajor rg) = rowMajor rg"
    by (simp add: list_all_iff)
  have fd: "find (pendingAt (read ctx)) (rowMajor rg) = None"
    using all by (simp add: find_None_iff list_all_iff)
  have "runFunc ctx ?fb = resumeSpec ctx ?fb"
    using assms(1) by (intro runFunc_resumeSpec) (simp_all add: makePendingFunction_def)
  then show ?thesis
    by (simp add: resumeSpec_def makePendingFunction_def remaining_fresh tw fd
          accumulate_resolved [OF all] Let_def)
qed

subsection \<open>The runners over a sequence of values\<close>

lemma number_zero [simp]: "(0 :: number) = Num 0"
  by (simp add: zero_number_def)

lemma number_one [simp]: "(1 :: number) = Num 1"
  by (simp add: one_number_def)

lemma number_add_zero [simp]: "a + Num 0 = a" "Num 0 + a = a"
  by (cases a; simp)+

lemma number_mult_one [simp]: "a * Num 1 = a" "Num 1 * a = a"
  by (cases a; simp)+

lemma foldl_createSum:
  "foldl runStep (createSum a) vs = createSum (a + sum_list (numbersOf vs))"
proof (induction vs arbitrary: a)
  case Nil
  then show ?case by (simp add: numbersOf_def)
next
  case (Cons v vs)
  have "runStep (createSum a) v = createSum (a + sum_list (numbersOf [v]))"
    by (cases v) (simp_all add: createSum_def createRunner_def step_def numbersOf_def)
  then show ?case
    using Cons.IH by (simp add: numbersOf_def add.assoc)
qed

lemma foldl_createProduct:
  "foldl runStep (createProduct a) vs = createProduct (a * prod_list (numbersOf vs))"
proof (induction vs arbitrary: a)
  case Nil
  then show ?case by (simp add: numbersOf_def)
next
  case (Cons v vs)
  have "runStep (createProduct a) v = createProduct (a * prod_list (numbersOf [v]))"
    by (cases v) (simp_all add: createProduct_def createRunner_def step_def numbersOf_def)
  then show ?case
    using Cons.IH by (simp add: numbersOf_def mult.assoc)
qed

lemma foldl_createCount:
  "foldl runStep (createCount a) vs = createCount (a + Num (of_nat (length (numbersOf vs))))"
proof (induction vs arbitrary: a)
  case Nil
  then show ?case by (simp add: numbersOf_def)
next
  case (Cons v vs)
  have "runStep (createCount a) v = createCount (a + Num (of_nat (length (numbersOf [v]))))"
    by (cases v) (simp_all add: createCount_def createRunner_def step_def numbersOf_def)
  then show ?case
    using Cons.IH by (simp add: numbersOf_def add.assoc)
qed

lemma foldl_createConcat:
  "foldl runStep (createConcat s) vs = createConcat (s @ concat (stringsOf vs))"
proof (induction vs arbitrary: s)
  case Nil
  then show ?case by (simp add: stringsOf_def)
next
  case (Cons v vs)
  have "runStep (createConcat s) v = createConcat (s @ concat (stringsOf [v]))"
    by (cases v) (simp_all add: createConcat_def createRunner_def step_def stringsOf_def)
  then show ?case
    using Cons.IH by (simp add: stringsOf_def)
qed

lemma foldl_createAverage:
  "foldl runStep (createAverage (t, n)) vs =
     createAverage (t + sum_list (numbersOf vs), n + Num (of_nat (length (numbersOf vs))))"
proof (induction vs arbitrary: t n)
  case Nil
  then show ?case by (simp add: numbersOf_def)
next
  case (Cons v vs)
  have "runStep (createAverage (t, n)) v =
      createAverage (t + sum_list (numbersOf [v]), n + Num (of_nat (length (numbersOf [v]))))"
    by (cases v) (simp_all add: createAverage_def createRunner_def step_def numbersOf_def)
  then show ?case
    using Cons.IH by (simp add: numbersOf_def add.assoc)
qed

lemma numbersOf_Cons:
  "numbersOf (v # vs) = (case v of Number x \<Rightarrow> x # numbersOf vs | _ \<Rightarrow> numbersOf vs)"
  by (cases v) (simp_all add: numbersOf_def)

lemma foldl_createMax: "foldl runStep (createMax m) vs = createMax (largest m (numbersOf vs))"
proof (induction vs arbitrary: m)
  case Nil
  then show ?case by (simp add: numbersOf_def largest_def)
next
  case (Cons v vs)
  have "runStep (createMax m) v = createMax (largest m (numbersOf [v]))"
    by (cases v)
       (simp_all add: createMax_def createRunner_def step_def numbersOf_def largest_def)
  then show ?case
    using Cons.IH by (cases v) (simp_all add: numbersOf_Cons largest_def numbersOf_def)
qed

lemma foldl_createMin: "foldl runStep (createMin m) vs = createMin (smallest m (numbersOf vs))"
proof (induction vs arbitrary: m)
  case Nil
  then show ?case by (simp add: numbersOf_def smallest_def)
next
  case (Cons v vs)
  have "runStep (createMin m) v = createMin (smallest m (numbersOf [v]))"
    by (cases v)
       (simp_all add: createMin_def createRunner_def step_def numbersOf_def smallest_def)
  then show ?case
    using Cons.IH by (cases v) (simp_all add: numbersOf_Cons smallest_def numbersOf_def)
qed

text \<open>Without NaN, max and min keep the largest and the smallest of the numbers.\<close>

lemma largest_Some: "largest (Some (Num r)) (map Num rs) = Some (Num (Max (insert r (set rs))))"
proof (induction rs arbitrary: r)
  case Nil
  then show ?case by (simp add: largest_def)
next
  case (Cons x rs)
  have "largest (Some (Num r)) (map Num (x # rs)) = largest (Some (Num (max r x))) (map Num rs)"
    by (simp add: largest_def max_def)
  also have "\<dots> = Some (Num (Max (insert (max r x) (set rs))))"
    by (rule Cons.IH)
  also have "Max (insert (max r x) (set rs)) = Max (insert r (insert x (set rs)))"
    by (cases "rs = []") (simp_all add: max.assoc)
  finally show ?case by simp
qed

lemma largest_None:
  "largest None (map Num rs) = (if rs = [] then None else Some (Num (Max (set rs))))"
proof (cases rs)
  case Nil
  then show ?thesis by (simp add: largest_def)
next
  case (Cons x xs)
  have "largest None (map Num (x # xs)) = largest (Some (Num x)) (map Num xs)"
    by (simp add: largest_def)
  then show ?thesis
    using Cons by (simp add: largest_Some)
qed

lemma smallest_Some: "smallest (Some (Num r)) (map Num rs) = Some (Num (Min (insert r (set rs))))"
proof (induction rs arbitrary: r)
  case Nil
  then show ?case by (simp add: smallest_def)
next
  case (Cons x rs)
  have "smallest (Some (Num r)) (map Num (x # rs)) = smallest (Some (Num (min r x))) (map Num rs)"
    by (simp add: smallest_def min_def)
  also have "\<dots> = Some (Num (Min (insert (min r x) (set rs))))"
    by (rule Cons.IH)
  also have "Min (insert (min r x) (set rs)) = Min (insert r (insert x (set rs)))"
    by (cases "rs = []") (simp_all add: min.assoc)
  finally show ?case by simp
qed

lemma smallest_None:
  "smallest None (map Num rs) = (if rs = [] then None else Some (Num (Min (set rs))))"
proof (cases rs)
  case Nil
  then show ?thesis by (simp add: smallest_def)
next
  case (Cons x xs)
  have "smallest None (map Num (x # xs)) = smallest (Some (Num x)) (map Num xs)"
    by (simp add: smallest_def)
  then show ?thesis
    using Cons by (simp add: smallest_Some)
qed

lemma map_Num_realsOf: "NaN \<notin> set ns \<Longrightarrow> map Num (realsOf ns) = ns"
proof (induction ns)
  case Nil
  then show ?case by (simp add: realsOf_def)
next
  case (Cons n ns)
  then show ?case by (cases n) (simp_all add: realsOf_def)
qed

lemma realsOf_empty: "NaN \<notin> set ns \<Longrightarrow> realsOf ns = [] \<longleftrightarrow> ns = []"
  using map_Num_realsOf [of ns] by auto

subsection \<open>The example contexts\<close>

lemma resolved_constContext: "resolved (constContext (Value v)) rg"
  by (simp add: resolved_def constContext_def pendingAt_def list_all_iff)

lemma resolved_columnContext: "resolved (columnContext vs) rg"
  by (simp add: resolved_def columnContext_def pendingAt_def list_all_iff)

lemma read_constContext: "read (constContext x) i j = x"
  by (simp add: constContext_def)

lemma height_exampleRange: "height exampleRange = 3"
  by (simp add: exampleRange_def)

lemma rowMajor_exampleRange: "rowMajor exampleRange = [(0, 0), (1, 0), (2, 0)]"
  by (simp add: rowMajor_def rowCells_def exampleRange_def upto.simps)

lemma makeCacheKey_exampleRange: "makeCacheKey exampleRange prop = prop @ '';0;0;3;1''"
  by (simp add: makeCacheKey_def exampleRange_def showInt_def showNat.simps)

lemma cache_constContext: "cache (constContext x) = Map.empty"
  by (simp add: constContext_def)

lemma reads_constContext: "reads (constContext x) = []"
  by (simp add: constContext_def)

lemma remaining_exampleRange: "remaining exampleRange 2 0 = [(2, 0)]"
  by (simp add: remaining_def rowMajor_exampleRange)

subsection \<open>The read of a property, by the kind of its name\<close>

text \<open>
  A name of the aggregation table, a name inherited from \<^verbatim>\<open>Object.prototype\<close>, and any
  other name except row, ROW, column and COLUMN.
\<close>

lemma readable_read_own:
  "map_of aggregations message = Some fn \<Longrightarrow>
     readable_read rg message ctx = cachedOrFresh fn rg message ctx"
  by (subst readable_read.simps)
     (simp add: aggregationsGet_def cachedOrFresh_def split: option.splits)

lemma readable_read_inherited:
  "map_of aggregations message = None \<Longrightarrow> message \<in> set objectPrototype \<Longrightarrow>
     readable_read rg message ctx =
       (case cache ctx (makeCacheKey rg message) of
          Some value \<Rightarrow> Some (Returns value, ctx)
        | None \<Rightarrow> Some (AppliesInherited message, ctx))"
  by (subst readable_read.simps) (simp add: aggregationsGet_def split: option.splits)

lemma readable_read_default:
  assumes "aggregationsGet message = None"
    and "message \<notin> {''row'', ''ROW'', ''column'', ''COLUMN''}"
  shows "readable_read rg message ctx =
     (case read ctx (tlRow rg) (tlCol rg) of
        PendingTask f \<Rightarrow>
          Some (Returns (PendingTask f), ctx\<lparr>reads := reads ctx @ [(tlRow rg, tlCol rg)]\<rparr>)
      | Value (Obj (RangeObj anchor)) \<Rightarrow>
          readable_read anchor message (ctx\<lparr>reads := reads ctx @ [(tlRow rg, tlCol rg)]\<rparr>)
      | Value (Obj (HostObj (Some reader))) \<Rightarrow>
          Some (Returns (hostAnswer (reader message)),
                ctx\<lparr>reads := reads ctx @ [(tlRow rg, tlCol rg)]\<rparr>)
      | Value _ \<Rightarrow>
          Some (Returns (Value (Obj (ErrorObj unknownField))),
                ctx\<lparr>reads := reads ctx @ [(tlRow rg, tlCol rg)]\<rparr>))"
  using assms
  by (subst readable_read.simps) (simp add: contextRead_def)

text \<open>The sum over the example range, with the third cell Pending and with it resolved.\<close>

lemma rangeSum_example_pending:
  assumes "read ctx = exampleCells (PendingTask f)"
  shows "rangeSum exampleRange ctx None =
     (PendingTask (FunctionFiber exampleFiber),
      ctx\<lparr>cache := (cache ctx)(''sum;0;0;3;1'' \<mapsto> PendingTask (FunctionFiber exampleFiber)),
          reads := reads ctx @ [(0, 0), (1, 0), (2, 0)]\<rparr>)"
  using assms
  by (simp add: rangeSum_def runFunc_resumeSpec resumeSpec_def makePendingFunction_def
        remaining_fresh rowMajor_exampleRange makeCacheKey_exampleRange height_exampleRange
        exampleCells_def exampleFiber_def pendingAt_def accumulate_def
        createSum_def createRunner_def step_def Let_def)

lemma rangeSum_example_resolved:
  assumes "read ctx = exampleCells (Value (Number (Num x)))"
  shows "rangeSum exampleRange ctx None =
     (Value (Number (Num (3 + x))),
      ctx\<lparr>cache := (cache ctx)(''sum;0;0;3;1'' \<mapsto> Value (Number (Num (3 + x)))),
          reads := reads ctx @ [(0, 0), (1, 0), (2, 0)]\<rparr>)"
  using assms
  by (simp add: rangeSum_def runFunc_resumeSpec resumeSpec_def makePendingFunction_def
        remaining_fresh rowMajor_exampleRange makeCacheKey_exampleRange height_exampleRange
        exampleCells_def pendingAt_def accumulate_def
        createSum_def createRunner_def step_def Let_def)

lemma read_exampleContext: "read (exampleContext third) = exampleCells third"
  by (simp add: exampleContext_def)

lemma cache_exampleContext: "cache (exampleContext third) = Map.empty"
  by (simp add: exampleContext_def)

lemma read_blockedContext: "read blockedContext = exampleCells (PendingTask (FormulaCell 2 0))"
  by (simp add: blockedContext_def exampleContext_def)

lemma read_finishedContext: "read (finishedContext third) = exampleCells third"
  by (simp add: finishedContext_def exampleContext_def)

lemma map_of_aggregations_SUM: "map_of aggregations ''SUM'' = Some (\<lambda>rg ctx. rangeSum rg ctx None)"
  by (simp add: aggregations_def)

lemma map_of_aggregations_sum: "map_of aggregations ''sum'' = Some (\<lambda>rg ctx. rangeSum rg ctx None)"
  by (simp add: aggregations_def)

text \<open>
  For the lower-case names the key that \<open>runFunc\<close> stores under is the key that the read
  looks up: what an aggregation has returned, Pending or final, a read of the lower-case
  name returns from the cache afterwards, without a call of the aggregation.
\<close>

lemma runFunc_stores:
  "runFunc ctx fb = (r, ctx') \<Longrightarrow> cache ctx' (makeCacheKey (rangeF fb) (state fb)) = Some r"
  by (auto simp: runFunc_scanList Let_def split: prod.splits option.splits)

lemma readable_read_cached:
  "map_of aggregations message = Some fn \<Longrightarrow> cache ctx (makeCacheKey rg message) = Some v \<Longrightarrow>
     readable_read rg message ctx = Some (Returns v, ctx)"
  by (simp add: readable_read_own cachedOrFresh_def)

lemma lower_case_result_is_cached:
  "rangeSum rg ctx None = (r, ctx') \<Longrightarrow> readable_read rg ''sum'' ctx' = Some (Returns r, ctx')"
  "rangeProduct rg ctx None = (r, ctx') \<Longrightarrow> readable_read rg ''product'' ctx' = Some (Returns r, ctx')"
  "rangeCount rg ctx None = (r, ctx') \<Longrightarrow> readable_read rg ''count'' ctx' = Some (Returns r, ctx')"
  "rangeAverage rg ctx None = (r, ctx') \<Longrightarrow> readable_read rg ''average'' ctx' = Some (Returns r, ctx')"
  "rangeMax rg ctx None = (r, ctx') \<Longrightarrow> readable_read rg ''max'' ctx' = Some (Returns r, ctx')"
  "rangeMin rg ctx None = (r, ctx') \<Longrightarrow> readable_read rg ''min'' ctx' = Some (Returns r, ctx')"
  "rangeConcat rg ctx None = (r, ctx') \<Longrightarrow> readable_read rg ''concat'' ctx' = Some (Returns r, ctx')"
proof -
  show "readable_read rg ''sum'' ctx' = Some (Returns r, ctx')"
    if "rangeSum rg ctx None = (r, ctx')"
    using runFunc_stores [OF that [unfolded rangeSum_def]]
    by (intro readable_read_cached) (simp_all add: aggregations_def makePendingFunction_def)
  show "readable_read rg ''product'' ctx' = Some (Returns r, ctx')"
    if "rangeProduct rg ctx None = (r, ctx')"
    using runFunc_stores [OF that [unfolded rangeProduct_def]]
    by (intro readable_read_cached) (simp_all add: aggregations_def makePendingFunction_def)
  show "readable_read rg ''count'' ctx' = Some (Returns r, ctx')"
    if "rangeCount rg ctx None = (r, ctx')"
    using runFunc_stores [OF that [unfolded rangeCount_def]]
    by (intro readable_read_cached) (simp_all add: aggregations_def makePendingFunction_def)
  show "readable_read rg ''average'' ctx' = Some (Returns r, ctx')"
    if "rangeAverage rg ctx None = (r, ctx')"
    using runFunc_stores [OF that [unfolded rangeAverage_def]]
    by (intro readable_read_cached) (simp_all add: aggregations_def makePendingFunction_def)
  show "readable_read rg ''max'' ctx' = Some (Returns r, ctx')"
    if "rangeMax rg ctx None = (r, ctx')"
    using runFunc_stores [OF that [unfolded rangeMax_def]]
    by (intro readable_read_cached) (simp_all add: aggregations_def makePendingFunction_def)
  show "readable_read rg ''min'' ctx' = Some (Returns r, ctx')"
    if "rangeMin rg ctx None = (r, ctx')"
    using runFunc_stores [OF that [unfolded rangeMin_def]]
    by (intro readable_read_cached) (simp_all add: aggregations_def makePendingFunction_def)
  show "readable_read rg ''concat'' ctx' = Some (Returns r, ctx')"
    if "rangeConcat rg ctx None = (r, ctx')"
    using runFunc_stores [OF that [unfolded rangeConcat_def]]
    by (intro readable_read_cached) (simp_all add: aggregations_def makePendingFunction_def)
qed

lemma operations_in_table:
  "\<forall>(lower, upper, fn) \<in> set operations.
     map_of aggregations lower = Some fn \<and> map_of aggregations upper = Some fn"
  by (simp add: operations_def aggregations_def)

subsection \<open>fromReference\<close>

text \<open>
  C10. For a reference whose second corner is given in full, the range built by
  \<open>fromReference\<close> has the smaller of the two rows and the smaller of the two columns as
  its anchor, height \<open>|row1 - row2| + 1\<close> and width \<open>|col1 - col2| + 1\<close>; both dimensions
  are at least 1 and the two corners may be given in any order. When \<open>row2\<close> or \<open>col2\<close> is
  undefined the range is the single cell at \<open>(row1, col1)\<close>, whatever the other
  coordinate of the second corner is.
\<close>

theorem fromReference_normalises:
  fixes ref :: reference
  shows
  "(row2 ref = Some r2 \<and> col2 ref = Some c2 \<longrightarrow>
      fromReference ref =
        \<lparr>tlRow = min (row1 ref) r2, tlCol = min (col1 ref) c2,
         height = \<bar>row1 ref - r2\<bar> + 1, width = \<bar>col1 ref - c2\<bar> + 1\<rparr> \<and>
      1 \<le> height (fromReference ref) \<and> 1 \<le> width (fromReference ref) \<and>
      fromReference \<lparr>row1 = r2, col1 = c2, row2 = Some (row1 ref), col2 = Some (col1 ref)\<rparr> =
        fromReference ref \<and>
      fromReference \<lparr>row1 = row1 ref, col1 = c2, row2 = Some r2, col2 = Some (col1 ref)\<rparr> =
        fromReference ref) \<and>
   (row2 ref = None \<or> col2 ref = None \<longrightarrow>
      fromReference ref = \<lparr>tlRow = row1 ref, tlCol = col1 ref, height = 1, width = 1\<rparr>)"
  by (auto simp: fromReference_def min_def split: option.splits)

theorem fromReference_normalises_witness:
  "fromReference \<lparr>row1 = 5, col1 = 2, row2 = Some 3, col2 = Some 7\<rparr> =
     \<lparr>tlRow = 3, tlCol = 2, height = 3, width = 6\<rparr> \<and>
   fromReference \<lparr>row1 = 3, col1 = 7, row2 = Some 5, col2 = Some 2\<rparr> =
     \<lparr>tlRow = 3, tlCol = 2, height = 3, width = 6\<rparr> \<and>
   fromReference \<lparr>row1 = 5, col1 = 2, row2 = None, col2 = Some 7\<rparr> =
     \<lparr>tlRow = 5, tlCol = 2, height = 1, width = 1\<rparr>"
  using fromReference_normalises [of "\<lparr>row1 = 5, col1 = 2, row2 = Some 3, col2 = Some 7\<rparr>" 3 7]
    fromReference_normalises [of "\<lparr>row1 = 5, col1 = 2, row2 = None, col2 = Some 7\<rparr>"]
  by simp

subsection \<open>Anchor coordinates and dereference\<close>

text \<open>
  C7. Reading the property \<open>row\<close> or \<open>ROW\<close> of a range gives \<open>tlRow + 1\<close>, reading
  \<open>column\<close> or \<open>COLUMN\<close> gives \<open>tlCol + 1\<close>, and neither touches the context. The
  dereference of the Reference capability is one call \<open>context.read(tlRow, tlCol)\<close>, whose
  answer is returned as it is.
\<close>

theorem anchor_coordinates_and_dereference:
  "readable_read rg ''row'' ctx = Some (Returns (Value (Number (Num (of_int (tlRow rg + 1))))), ctx) \<and>
   readable_read rg ''ROW'' ctx = Some (Returns (Value (Number (Num (of_int (tlRow rg + 1))))), ctx) \<and>
   readable_read rg ''column'' ctx = Some (Returns (Value (Number (Num (of_int (tlCol rg + 1))))), ctx) \<and>
   readable_read rg ''COLUMN'' ctx = Some (Returns (Value (Number (Num (of_int (tlCol rg + 1))))), ctx) \<and>
   reference_dereference rg ctx =
     (read ctx (tlRow rg) (tlCol rg), ctx\<lparr>reads := reads ctx @ [(tlRow rg, tlCol rg)]\<rparr>)"
  by (simp add: readable_read.simps aggregationsGet_def aggregations_def objectPrototype_def
        reference_dereference_def contextRead_def)

text \<open>
  At the range of height 3 and width 1 anchored at row 4, column 2, in a context whose
  cells all hold a Range: the coordinates are 5 and 3, and the dereference gives the Range
  in the anchor cell after the single read of \<open>(4, 2)\<close>.
\<close>

theorem anchor_coordinates_and_dereference_witness:
  "readable_read \<lparr>tlRow = 4, tlCol = 2, height = 3, width = 1\<rparr> ''ROW''
       (constContext (Value (Obj (RangeObj exampleRange)))) =
     Some (Returns (Value (Number (Num 5))), constContext (Value (Obj (RangeObj exampleRange)))) \<and>
   readable_read \<lparr>tlRow = 4, tlCol = 2, height = 3, width = 1\<rparr> ''column''
       (constContext (Value (Obj (RangeObj exampleRange)))) =
     Some (Returns (Value (Number (Num 3))), constContext (Value (Obj (RangeObj exampleRange)))) \<and>
   reference_dereference \<lparr>tlRow = 4, tlCol = 2, height = 3, width = 1\<rparr>
       (constContext (Value (Obj (RangeObj exampleRange)))) =
     (Value (Obj (RangeObj exampleRange)),
      (constContext (Value (Obj (RangeObj exampleRange))))\<lparr>reads := [(4, 2)]\<rparr>)"
  using anchor_coordinates_and_dereference
    [of "\<lparr>tlRow = 4, tlCol = 2, height = 3, width = 1\<rparr>"
        "constContext (Value (Obj (RangeObj exampleRange)))"]
  by (simp add: constContext_def)

subsection \<open>The runners skip values of the wrong type\<close>

text \<open>
  C8. The step function of every runner leaves the accumulator as it is on a value that
  is not of the runner's primitive type, and no value makes it fail: sum, product, count,
  average, max and min change the accumulator on numbers only, concat on strings only.
  On a number sum adds it, product multiplies by it and count adds one; on a string
  concat appends it. So over any sequence of scanned values sum gives the sum of the
  numbers among them, product their product, count their number and concat the
  concatenation of the strings; and over a range (of height at least 1) whose cells are
  all resolved, each of these aggregations returns that result for the values of the
  range's cells in row-major order.
\<close>

theorem runner_type_skipping:
  "(\<not> isNumber v \<longrightarrow>
      runStep (createSum a) v = createSum a \<and>
      runStep (createProduct a) v = createProduct a \<and>
      runStep (createCount a) v = createCount a \<and>
      runStep (createAverage (a, n)) v = createAverage (a, n) \<and>
      runStep (createMax m) v = createMax m \<and>
      runStep (createMin m) v = createMin m) \<and>
   (\<not> isString v \<longrightarrow> runStep (createConcat s) v = createConcat s) \<and>
   runStep (createSum a) (Number x) = createSum (a + x) \<and>
   runStep (createProduct a) (Number x) = createProduct (a * x) \<and>
   runStep (createCount a) (Number x) = createCount (a + Num 1) \<and>
   runStep (createConcat s) (Str t) = createConcat (s @ t) \<and>
   foldl runStep (createSum (Num 0)) vs = createSum (sum_list (numbersOf vs)) \<and>
   foldl runStep (createProduct (Num 1)) vs = createProduct (prod_list (numbersOf vs)) \<and>
   foldl runStep (createCount (Num 0)) vs = createCount (Num (of_nat (length (numbersOf vs)))) \<and>
   foldl runStep (createConcat []) vs = createConcat (concat (stringsOf vs)) \<and>
   (1 \<le> height rg \<and> resolved ctx rg \<longrightarrow>
      fst (rangeSum rg ctx None) =
        Value (Number (sum_list (numbersOf (cellValues (read ctx) (rowMajor rg))))) \<and>
      fst (rangeProduct rg ctx None) =
        Value (Number (prod_list (numbersOf (cellValues (read ctx) (rowMajor rg))))) \<and>
      fst (rangeCount rg ctx None) =
        Value (Number (Num (of_nat (length (numbersOf (cellValues (read ctx) (rowMajor rg))))))) \<and>
      fst (rangeConcat rg ctx None) =
        Value (Str (concat (stringsOf (cellValues (read ctx) (rowMajor rg))))))"
proof -
  have skip: "\<not> isNumber v \<Longrightarrow>
      runStep (createSum a) v = createSum a \<and>
      runStep (createProduct a) v = createProduct a \<and>
      runStep (createCount a) v = createCount a \<and>
      runStep (createAverage (a, n)) v = createAverage (a, n) \<and>
      runStep (createMax m) v = createMax m \<and>
      runStep (createMin m) v = createMin m"
    by (cases v)
       (simp_all add: createSum_def createProduct_def createCount_def createAverage_def
          createMax_def createMin_def createRunner_def step_def)
  have skipStr: "\<not> isString v \<Longrightarrow> runStep (createConcat s) v = createConcat s"
    by (cases v) (simp_all add: createConcat_def createRunner_def step_def)
  have steps: "runStep (createSum a) (Number x) = createSum (a + x) \<and>
      runStep (createProduct a) (Number x) = createProduct (a * x) \<and>
      runStep (createCount a) (Number x) = createCount (a + Num 1) \<and>
      runStep (createConcat s) (Str t) = createConcat (s @ t)"
    by (simp add: createSum_def createProduct_def createCount_def createConcat_def
          createRunner_def step_def)
  have folds: "foldl runStep (createSum (Num 0)) vs = createSum (sum_list (numbersOf vs)) \<and>
      foldl runStep (createProduct (Num 1)) vs = createProduct (prod_list (numbersOf vs)) \<and>
      foldl runStep (createCount (Num 0)) vs = createCount (Num (of_nat (length (numbersOf vs)))) \<and>
      foldl runStep (createConcat []) vs = createConcat (concat (stringsOf vs))"
    by (simp add: foldl_createSum foldl_createProduct foldl_createCount foldl_createConcat)
  have ranges: "fst (rangeSum rg ctx None) =
        Value (Number (sum_list (numbersOf (cellValues (read ctx) (rowMajor rg))))) \<and>
      fst (rangeProduct rg ctx None) =
        Value (Number (prod_list (numbersOf (cellValues (read ctx) (rowMajor rg))))) \<and>
      fst (rangeCount rg ctx None) =
        Value (Number (Num (of_nat (length (numbersOf (cellValues (read ctx) (rowMajor rg))))))) \<and>
      fst (rangeConcat rg ctx None) =
        Value (Str (concat (stringsOf (cellValues (read ctx) (rowMajor rg)))))"
    if "1 \<le> height rg" and "resolved ctx rg"
    using that
    by (simp add: rangeSum_def rangeProduct_def rangeCount_def rangeConcat_def
          runFunc_fresh_resolved foldl_createSum foldl_createProduct foldl_createCount
          foldl_createConcat)
       (simp add: createSum_def createProduct_def createCount_def createConcat_def
          createRunner_def)
  from skip skipStr steps folds ranges show ?thesis
    by blast
qed

text \<open>
  A string leaves the sum at 5 and a number leaves the concatenation at \<open>ab\<close>; the sum of
  \<open>[1, a, 2, true]\<close> is 3; over the three-cell example range the sum of cells that all
  hold 2 is 6, the sum of cells that all hold \<open>x\<close> is 0 and their concatenation is
  \<open>xxx\<close>.
\<close>

theorem runner_type_skipping_witness:
  "runStep (createSum (Num 5)) (Str ''7'') = createSum (Num 5) \<and>
   runStep (createConcat ''ab'') (Number (Num 7)) = createConcat ''ab'' \<and>
   foldl runStep (createSum (Num 0)) [Number (Num 1), Str ''a'', Number (Num 2), Boolean True] = createSum (Num 3) \<and>
   foldl runStep (createConcat []) [Number (Num 1), Str ''a'', Obj (ErrorObj div0), Str ''b''] =
     createConcat ''ab'' \<and>
   fst (rangeSum exampleRange (constContext (Value (Number (Num 2)))) None) = Value (Number (Num 6)) \<and>
   fst (rangeSum exampleRange (constContext (Value (Str ''x''))) None) = Value (Number (Num 0)) \<and>
   fst (rangeConcat exampleRange (constContext (Value (Str ''x''))) None) = Value (Str ''xxx'')"
  using runner_type_skipping [of "Str ''7''" "Num 5" "Num 0" None "''ab''" "Num 0" "[]" "[Number (Num 1), Str ''a'', Number (Num 2), Boolean True]" exampleRange "constContext (Value (Number (Num 2)))"]
    runner_type_skipping [of "Number (Num 7)" "Num 5" "Num 0" None "''ab''" "Num 0" "[]" "[Number (Num 1), Str ''a'', Obj (ErrorObj div0), Str ''b'']" exampleRange "constContext (Value (Str ''x''))"]
  by (simp add: numbersOf_def stringsOf_def resolved_constContext rowMajor_exampleRange
        height_exampleRange cellValues_def read_constContext)

subsection \<open>max and min\<close>

text \<open>
  C9, as stated, fails. NaN is a number for \<^verbatim>\<open>typeof\<close>, and both comparisons are false
  on it: max and min keep a NaN that is the first number scanned and pass over any later
  one. The two columns NaN, 1, 2 and 1, NaN, 2 hold the same numbers, yet over the first max
  and min both give NaN and over the second max gives 2 and min gives 1: the result is
  not determined by the numeric cell values, so it is not their maximum or minimum.
\<close>

theorem max_min_with_NaN_depend_on_order:
  "set (numbersOf (cellValues (read (columnContext [Number NaN, Number (Num 1), Number (Num 2)]))
          (rowMajor exampleRange))) =
   set (numbersOf (cellValues (read (columnContext [Number (Num 1), Number NaN, Number (Num 2)]))
          (rowMajor exampleRange))) \<and>
   fst (rangeMax exampleRange (columnContext [Number NaN, Number (Num 1), Number (Num 2)]) None) =
     Value (Number NaN) \<and>
   fst (rangeMax exampleRange (columnContext [Number (Num 1), Number NaN, Number (Num 2)]) None) =
     Value (Number (Num 2)) \<and>
   fst (rangeMin exampleRange (columnContext [Number NaN, Number (Num 1), Number (Num 2)]) None) =
     Value (Number NaN) \<and>
   fst (rangeMin exampleRange (columnContext [Number (Num 1), Number NaN, Number (Num 2)]) None) =
     Value (Number (Num 1))"
proof -
  have cells: "cellValues (read (columnContext [a, b, c])) (rowMajor exampleRange) = [a, b, c]"
    for a b c
    by (simp add: rowMajor_exampleRange cellValues_def columnContext_def)
  have run: "fst (rangeMax exampleRange (columnContext [a, b, c]) None) =
        Value (finishRunner (foldl runStep (createMax None) [a, b, c])) \<and>
      fst (rangeMin exampleRange (columnContext [a, b, c]) None) =
        Value (finishRunner (foldl runStep (createMin None) [a, b, c]))" for a b c
    by (simp add: rangeMax_def rangeMin_def runFunc_fresh_resolved height_exampleRange
          resolved_columnContext cells)
  show ?thesis
    by (simp add: run cells numbersOf_def insert_commute)
       (simp add: createMax_def createMin_def createRunner_def step_def fromUndefined_def)
qed

text \<open>
  C9, amended. Over values with no number among them the accumulator of max and of min
  stays undefined ("none seen"), and the finisher \<open>fromUndefined\<close> maps undefined to 0,
  so both aggregations give 0. With at least one number, and NaN not among the numbers,
  they give the largest and the smallest of the numbers. This holds for any sequence of
  scanned values, and for the values of the cells of a range (of height at least 1) whose
  cells are all resolved.
\<close>

theorem max_min_finalisation:
  "(numbersOf vs = [] \<longrightarrow>
      foldl runStep (createMax None) vs = createMax None \<and>
      foldl runStep (createMin None) vs = createMin None) \<and>
   fromUndefined None = Num 0 \<and>
   finishRunner (createMax None) = Number (Num 0) \<and>
   finishRunner (createMin None) = Number (Num 0) \<and>
   (NaN \<notin> set (numbersOf vs) \<longrightarrow>
      finishRunner (foldl runStep (createMax None) vs) =
        Number (Num (if numbersOf vs = [] then 0 else Max (set (realsOf (numbersOf vs))))) \<and>
      finishRunner (foldl runStep (createMin None) vs) =
        Number (Num (if numbersOf vs = [] then 0 else Min (set (realsOf (numbersOf vs)))))) \<and>
   (1 \<le> height rg \<and> resolved ctx rg \<and>
    NaN \<notin> set (numbersOf (cellValues (read ctx) (rowMajor rg))) \<longrightarrow>
      fst (rangeMax rg ctx None) =
        Value (Number (Num (if numbersOf (cellValues (read ctx) (rowMajor rg)) = [] then 0
             else Max (set (realsOf (numbersOf (cellValues (read ctx) (rowMajor rg)))))))) \<and>
      fst (rangeMin rg ctx None) =
        Value (Number (Num (if numbersOf (cellValues (read ctx) (rowMajor rg)) = [] then 0
             else Min (set (realsOf (numbersOf (cellValues (read ctx) (rowMajor rg)))))))))"
proof -
  have none: "foldl runStep (createMax None) vs = createMax None \<and>
      foldl runStep (createMin None) vs = createMin None" if "numbersOf vs = []"
    using that by (simp add: foldl_createMax foldl_createMin largest_def smallest_def)
  have finishers: "fromUndefined None = Num 0 \<and> finishRunner (createMax None) = Number (Num 0) \<and>
      finishRunner (createMin None) = Number (Num 0)"
    by (simp add: fromUndefined_def createMax_def createMin_def createRunner_def)
  have fin: "finishRunner (createMax m) = Number (fromUndefined m) \<and>
      finishRunner (createMin m) = Number (fromUndefined m)" for m
    by (simp add: createMax_def createMin_def createRunner_def)
  have seqs: "finishRunner (foldl runStep (createMax None) ws) =
        Number (Num (if numbersOf ws = [] then 0 else Max (set (realsOf (numbersOf ws))))) \<and>
      finishRunner (foldl runStep (createMin None) ws) =
        Number (Num (if numbersOf ws = [] then 0 else Min (set (realsOf (numbersOf ws)))))"
    if "NaN \<notin> set (numbersOf ws)" for ws
  proof -
    have "largest None (numbersOf ws) = largest None (map Num (realsOf (numbersOf ws)))"
      "smallest None (numbersOf ws) = smallest None (map Num (realsOf (numbersOf ws)))"
      using that by (simp_all add: map_Num_realsOf)
    then show ?thesis
      using that
      by (simp add: foldl_createMax foldl_createMin largest_None smallest_None fin
            fromUndefined_def realsOf_empty)
  qed
  have ranges: "fst (rangeMax rg ctx None) =
        Value (Number (Num (if numbersOf (cellValues (read ctx) (rowMajor rg)) = [] then 0
             else Max (set (realsOf (numbersOf (cellValues (read ctx) (rowMajor rg)))))))) \<and>
      fst (rangeMin rg ctx None) =
        Value (Number (Num (if numbersOf (cellValues (read ctx) (rowMajor rg)) = [] then 0
             else Min (set (realsOf (numbersOf (cellValues (read ctx) (rowMajor rg))))))))"
    if "1 \<le> height rg" and "resolved ctx rg"
      and "NaN \<notin> set (numbersOf (cellValues (read ctx) (rowMajor rg)))"
    using that(1,2) seqs [OF that(3)]
    by (simp add: rangeMax_def rangeMin_def runFunc_fresh_resolved)
  from none finishers seqs [of vs] ranges show ?thesis
    by blast
qed

text \<open>
  No number in \<open>[a, true]\<close>: the accumulator stays undefined and the result is 0. The
  largest of \<open>-4, -2\<close> is \<open>-2\<close>, not 0; the smallest of \<open>4, 2\<close> is 2. Over the example range,
  cells that all hold \<open>x\<close> give 0 for max and min, cells that all hold \<open>-7\<close> give \<open>-7\<close>.
\<close>

theorem max_min_finalisation_witness:
  "foldl runStep (createMax None) [Str ''a'', Boolean True] = createMax None \<and>
   finishRunner (foldl runStep (createMax None) [Str ''a'', Boolean True]) = Number (Num 0) \<and>
   finishRunner (foldl runStep (createMax None) [Number (Num (- 4)), Str ''a'', Number (Num (- 2))]) =
     Number (Num (- 2)) \<and>
   finishRunner (foldl runStep (createMin None) [Number (Num 4), Str ''a'', Number (Num 2)]) =
     Number (Num 2) \<and>
   fst (rangeMax exampleRange (constContext (Value (Str ''x''))) None) = Value (Number (Num 0)) \<and>
   fst (rangeMin exampleRange (constContext (Value (Str ''x''))) None) = Value (Number (Num 0)) \<and>
   fst (rangeMax exampleRange (constContext (Value (Number (Num (- 7))))) None) =
     Value (Number (Num (- 7)))"
  using max_min_finalisation [of "[Str ''a'', Boolean True]" exampleRange "constContext (Value (Str ''x''))"]
    max_min_finalisation [of "[Number (Num (- 4)), Str ''a'', Number (Num (- 2))]" exampleRange "constContext (Value (Number (Num (- 7))))"]
    max_min_finalisation [of "[Number (Num 4), Str ''a'', Number (Num 2)]" exampleRange "constContext (Value (Number (Num (- 7))))"]
  by (simp add: numbersOf_def realsOf_def resolved_constContext rowMajor_exampleRange
        height_exampleRange cellValues_def read_constContext)

subsection \<open>average over no numbers\<close>

text \<open>
  C5. The finisher of average maps a count of 0 to the division-by-zero error object.
  Over values with no number among them the accumulator of average stays at total 0 and
  count 0, so the result is that error object. For a range (of height at least 1) whose
  cells are all resolved and hold no number, \<open>rangeAverage\<close> completes: it reads every cell
  once, returns the division-by-zero error object and stores it under the key of
  \<open>average\<close> and the range.
\<close>

theorem average_without_numbers:
  "finishAverage (t, Num 0) = Obj (ErrorObj div0) \<and>
   (numbersOf vs = [] \<longrightarrow>
      foldl runStep (createAverage (Num 0, Num 0)) vs = createAverage (Num 0, Num 0) \<and>
      finishRunner (foldl runStep (createAverage (Num 0, Num 0)) vs) = Obj (ErrorObj div0)) \<and>
   (1 \<le> height rg \<and> resolved ctx rg \<and> numbersOf (cellValues (read ctx) (rowMajor rg)) = [] \<longrightarrow>
      rangeAverage rg ctx None =
        (Value (Obj (ErrorObj div0)),
         ctx\<lparr>cache := (cache ctx)(makeCacheKey rg ''average'' \<mapsto> Value (Obj (ErrorObj div0))),
             reads := reads ctx @ rowMajor rg\<rparr>))"
proof -
  have fin: "finishAverage (t, Num 0) = Obj (ErrorObj div0)" for t
    by (simp add: finishAverage_def)
  have finish0: "finishRunner (createAverage (Num 0, Num 0)) = Obj (ErrorObj div0)"
    by (simp add: createAverage_def createRunner_def finishAverage_def)
  have seqs: "foldl runStep (createAverage (Num 0, Num 0)) ws = createAverage (Num 0, Num 0) \<and>
      finishRunner (foldl runStep (createAverage (Num 0, Num 0)) ws) = Obj (ErrorObj div0)"
    if "numbersOf ws = []" for ws
    using that by (simp add: foldl_createAverage finish0)
  have "rangeAverage rg ctx None =
        (Value (Obj (ErrorObj div0)),
         ctx\<lparr>cache := (cache ctx)(makeCacheKey rg ''average'' \<mapsto> Value (Obj (ErrorObj div0))),
             reads := reads ctx @ rowMajor rg\<rparr>)"
    if "1 \<le> height rg" and "resolved ctx rg"
      and "numbersOf (cellValues (read ctx) (rowMajor rg)) = []"
    using that
    by (simp add: rangeAverage_def runFunc_fresh_resolved foldl_createAverage finish0)
  with fin seqs [of vs] show ?thesis
    by blast
qed

text \<open>Over the example range with cells that all hold the string \<open>x\<close>.\<close>

theorem average_without_numbers_witness:
  "rangeAverage exampleRange (constContext (Value (Str ''x''))) None =
     (Value (Obj (ErrorObj div0)),
      (constContext (Value (Str ''x'')))
        \<lparr>cache := [''average;0;0;3;1'' \<mapsto> Value (Obj (ErrorObj div0))],
         reads := [(0, 0), (1, 0), (2, 0)]\<rparr>) \<and>
   foldl runStep (createAverage (Num 0, Num 0)) [Str ''a'', Boolean True] = createAverage (Num 0, Num 0) \<and>
   finishAverage (Num 0, Num 0) = Obj (ErrorObj div0)"
  using average_without_numbers [of "Num 0" "[Str ''a'', Boolean True]" exampleRange "constContext (Value (Str ''x''))"]
  by (simp add: numbersOf_def resolved_constContext rowMajor_exampleRange
        height_exampleRange cellValues_def read_constContext makeCacheKey_exampleRange
        cache_constContext reads_constContext)

subsection \<open>Resuming a fiber\<close>

text \<open>
  C2. For a fiber whose cursor lies in its range (its row among the range's rows, its
  column not left of the range), \<open>runFunc\<close> does what \<open>resumeSpec\<close> says: it reads the
  remaining cells, which are the cells of the cursor's row from the cursor's column on
  followed by the full rows below, each once and in row-major order, starting at the
  cursor; at the first Pending cell it stops, makes that cell the fiber's cursor, stores
  the Pending with the fiber under the key of the fiber's operation and range and returns
  it; when no cell is Pending it stores and returns the finisher's result. For the range of
  3 rows and 1 column at (0, 0) holding 1, 2 and a Pending cell, the sum first returns
  Pending with the fiber's cursor at the third cell (2, 0), and when that cell holds 3,
  resuming the fiber reads that cell alone and returns 6, stored under the key
  \<open>sum;0;0;3;1\<close>.
\<close>

theorem runFunc_resumes_at_cursor:
  "(tlRow (rangeF fb) \<le> row fb \<and> row fb < tlRow (rangeF fb) + height (rangeF fb) \<and>
    tlCol (rangeF fb) \<le> column fb \<longrightarrow>
      runFunc ctx fb = resumeSpec ctx fb \<and>
      distinct (remaining (rangeF fb) (row fb) (column fb)) \<and>
      remaining (rangeF fb) (row fb) (column fb) =
        rowCells (row fb) (column fb) (tlCol (rangeF fb) + width (rangeF fb)) @
        concat (map (\<lambda>i. rowCells i (tlCol (rangeF fb)) (tlCol (rangeF fb) + width (rangeF fb)))
                    [row fb + 1..tlRow (rangeF fb) + height (rangeF fb) - 1])) \<and>
   rangeSum exampleRange (exampleContext (PendingTask (FormulaCell 2 0))) None =
     (PendingTask (FunctionFiber exampleFiber),
      (exampleContext (PendingTask (FormulaCell 2 0)))
        \<lparr>cache := [''sum;0;0;3;1'' \<mapsto> PendingTask (FunctionFiber exampleFiber)],
         reads := [(0, 0), (1, 0), (2, 0)]\<rparr>) \<and>
   row exampleFiber = 2 \<and> column exampleFiber = 0 \<and>
   runFunc ((exampleContext (Value (Number (Num 3))))
        \<lparr>cache := [''sum;0;0;3;1'' \<mapsto> PendingTask (FunctionFiber exampleFiber)],
         reads := [(0, 0), (1, 0), (2, 0)]\<rparr>) exampleFiber =
     (Value (Number (Num 6)),
      (exampleContext (Value (Number (Num 3))))
        \<lparr>cache := [''sum;0;0;3;1'' \<mapsto> Value (Number (Num 6))],
         reads := [(0, 0), (1, 0), (2, 0), (2, 0)]\<rparr>)"
proof -
  have general: "runFunc ctx fb = resumeSpec ctx fb \<and>
      distinct (remaining (rangeF fb) (row fb) (column fb)) \<and>
      remaining (rangeF fb) (row fb) (column fb) =
        rowCells (row fb) (column fb) (tlCol (rangeF fb) + width (rangeF fb)) @
        concat (map (\<lambda>i. rowCells i (tlCol (rangeF fb)) (tlCol (rangeF fb) + width (rangeF fb)))
                    [row fb + 1..tlRow (rangeF fb) + height (rangeF fb) - 1])"
    if "tlRow (rangeF fb) \<le> row fb" and "row fb < tlRow (rangeF fb) + height (rangeF fb)"
      and "tlCol (rangeF fb) \<le> column fb"
  proof (intro conjI)
    show "runFunc ctx fb = resumeSpec ctx fb"
      using that by (rule runFunc_resumeSpec)
    show "distinct (remaining (rangeF fb) (row fb) (column fb))"
      by (rule distinct_remaining)
    show "remaining (rangeF fb) (row fb) (column fb) =
        rowCells (row fb) (column fb) (tlCol (rangeF fb) + width (rangeF fb)) @
        concat (map (\<lambda>i. rowCells i (tlCol (rangeF fb)) (tlCol (rangeF fb) + width (rangeF fb)))
                    [row fb + 1..tlRow (rangeF fb) + height (rangeF fb) - 1])"
      using that by (simp add: remaining_cells rowsCells_def)
  qed
  have first: "rangeSum exampleRange (exampleContext (PendingTask (FormulaCell 2 0))) None =
     (PendingTask (FunctionFiber exampleFiber),
      (exampleContext (PendingTask (FormulaCell 2 0)))
        \<lparr>cache := [''sum;0;0;3;1'' \<mapsto> PendingTask (FunctionFiber exampleFiber)],
         reads := [(0, 0), (1, 0), (2, 0)]\<rparr>)"
    by (simp add: rangeSum_def runFunc_resumeSpec resumeSpec_def makePendingFunction_def
          remaining_fresh rowMajor_exampleRange makeCacheKey_exampleRange height_exampleRange
          exampleContext_def exampleCells_def exampleFiber_def pendingAt_def accumulate_def
          createSum_def createRunner_def step_def Let_def)
  have cursor: "row exampleFiber = 2 \<and> column exampleFiber = 0"
    by (simp add: exampleFiber_def makePendingFunction_def)
  have second: "runFunc ((exampleContext (Value (Number (Num 3))))
        \<lparr>cache := [''sum;0;0;3;1'' \<mapsto> PendingTask (FunctionFiber exampleFiber)],
         reads := [(0, 0), (1, 0), (2, 0)]\<rparr>) exampleFiber =
     (Value (Number (Num 6)),
      (exampleContext (Value (Number (Num 3))))
        \<lparr>cache := [''sum;0;0;3;1'' \<mapsto> Value (Number (Num 6))],
         reads := [(0, 0), (1, 0), (2, 0), (2, 0)]\<rparr>)"
  proof -
    have "runFunc ctx exampleFiber = resumeSpec ctx exampleFiber" for ctx
      by (rule runFunc_resumeSpec)
         (simp_all add: exampleFiber_def makePendingFunction_def exampleRange_def)
    then show ?thesis
      by (simp add: resumeSpec_def exampleFiber_def makePendingFunction_def
            remaining_exampleRange makeCacheKey_exampleRange
            exampleContext_def exampleCells_def pendingAt_def accumulate_def
            createSum_def createRunner_def step_def Let_def)
  qed
  from general first cursor second show ?thesis
    by blast
qed

text \<open>
  The fiber of the example, resumed while the third cell is still Pending: its cursor
  lies in its range, the one remaining cell is read, and the same Pending is stored again.
\<close>

theorem runFunc_resumes_at_cursor_witness:
  "runFunc blockedContext exampleFiber =
     (PendingTask (FunctionFiber exampleFiber),
      blockedContext\<lparr>reads := [(0, 0), (1, 0), (2, 0), (2, 0)]\<rparr>) \<and>
   remaining (rangeF exampleFiber) (row exampleFiber) (column exampleFiber) = [(2, 0)]"
  using runFunc_resumes_at_cursor [of exampleFiber blockedContext]
  by (simp add: resumeSpec_def exampleFiber_def makePendingFunction_def
        remaining_exampleRange makeCacheKey_exampleRange rowCells_def
        blockedContext_def exampleContext_def exampleCells_def pendingAt_def accumulate_def
        Let_def)
     (simp add: exampleRange_def)

subsection \<open>The names of the aggregations\<close>

text \<open>
  C3, as stated, fails. The property \<open>Sum\<close> is \<open>sum\<close> up to letter case, yet reading it
  does not invoke the sum: it is no name of the aggregation table, so the read falls
  through to the anchor cell, which holds the number 1, and gives the unknown-field error.
  Reading \<open>sum\<close> in the same context gives 6.
\<close>

theorem mixed_case_is_no_aggregation:
  "readable_read exampleRange ''Sum'' (exampleContext (Value (Number (Num 3)))) =
     Some (Returns (Value (Obj (ErrorObj unknownField))),
           (exampleContext (Value (Number (Num 3))))\<lparr>reads := [(0, 0)]\<rparr>) \<and>
   readable_read exampleRange ''sum'' (exampleContext (Value (Number (Num 3)))) =
     Some (Returns (Value (Number (Num 6))), finishedContext (Value (Number (Num 3))))"
proof -
  have other: "aggregationsGet ''Sum'' = None"
    "''Sum'' \<notin> {''row'', ''ROW'', ''column'', ''COLUMN''}"
    by (simp_all add: aggregationsGet_def aggregations_def objectPrototype_def)
  have anchor: "tlRow exampleRange = 0 \<and> tlCol exampleRange = 0"
    by (simp add: exampleRange_def)
  have mixed: "readable_read exampleRange ''Sum'' (exampleContext (Value (Number (Num 3)))) =
     Some (Returns (Value (Obj (ErrorObj unknownField))),
           (exampleContext (Value (Number (Num 3))))\<lparr>reads := [(0, 0)]\<rparr>)"
    by (simp add: readable_read_default [OF other] anchor exampleCells_def exampleContext_def)
  have lower: "readable_read exampleRange ''sum'' (exampleContext (Value (Number (Num 3)))) =
     Some (Returns (Value (Number (Num 6))), finishedContext (Value (Number (Num 3))))"
    by (simp add: readable_read_own [OF map_of_aggregations_sum] cachedOrFresh_def
          cache_exampleContext rangeSum_example_resolved [OF read_exampleContext])
       (simp add: exampleContext_def finishedContext_def)
  from mixed lower show ?thesis
    by simp
qed

text \<open>
  C3, amended. The aggregation table has fourteen names: the seven operation names in
  lower case and the same seven in upper case. Reading a property that is the lower-case
  or the upper-case spelling of an operation name invokes that operation's aggregation on
  a fresh fiber when the cache holds no entry for the operation and the range; reading the
  lower-case name returns the entry of the cache under the key of the operation and the
  range when there is one.
\<close>

theorem lower_and_upper_case_aggregation_names:
  "(\<forall>(lower, upper, fn) \<in> set operations.
      (cache ctx (makeCacheKey rg lower) = None \<and> cache ctx (makeCacheKey rg upper) = None \<longrightarrow>
         readable_read rg lower ctx = invoked fn rg ctx \<and>
         readable_read rg upper ctx = invoked fn rg ctx) \<and>
      (\<forall>v. cache ctx (makeCacheKey rg lower) = Some v \<longrightarrow>
         readable_read rg lower ctx = Some (Returns v, ctx))) \<and>
   set (map fst aggregations) =
     set (map fst operations) \<union> set (map (fst \<circ> snd) operations) \<and>
   map fst operations = [''sum'', ''product'', ''count'', ''average'', ''max'', ''min'', ''concat''] \<and>
   map (fst \<circ> snd) operations =
     [''SUM'', ''PRODUCT'', ''COUNT'', ''AVERAGE'', ''MAX'', ''MIN'', ''CONCAT'']"
proof -
  have reads: "(cache ctx (makeCacheKey rg lower) = None \<and> cache ctx (makeCacheKey rg upper) = None \<longrightarrow>
         readable_read rg lower ctx = invoked fn rg ctx \<and>
         readable_read rg upper ctx = invoked fn rg ctx) \<and>
      (\<forall>v. cache ctx (makeCacheKey rg lower) = Some v \<longrightarrow>
         readable_read rg lower ctx = Some (Returns v, ctx))"
    if "(lower, upper, fn) \<in> set operations" for lower upper fn
  proof -
    have "map_of aggregations lower = Some fn \<and> map_of aggregations upper = Some fn"
      using operations_in_table that by blast
    then show ?thesis
      by (simp add: readable_read_own cachedOrFresh_def invoked_def)
  qed
  have names: "set (map fst aggregations) =
     set (map fst operations) \<union> set (map (fst \<circ> snd) operations) \<and>
   map fst operations = [''sum'', ''product'', ''count'', ''average'', ''max'', ''min'', ''concat''] \<and>
   map (fst \<circ> snd) operations =
     [''SUM'', ''PRODUCT'', ''COUNT'', ''AVERAGE'', ''MAX'', ''MIN'', ''CONCAT'']"
    by (simp add: aggregations_def operations_def insert_commute)
  from reads names show ?thesis
    by blast
qed

text \<open>
  Over the example range holding 1, 2, 3: with an empty cache \<open>SUM\<close> and \<open>sum\<close> both run
  the sum and give 6, and \<open>sum\<close> after that gives the 6 of the cache.
\<close>

theorem lower_and_upper_case_aggregation_names_witness:
  "readable_read exampleRange ''SUM'' (exampleContext (Value (Number (Num 3)))) =
     Some (Returns (Value (Number (Num 6))), finishedContext (Value (Number (Num 3)))) \<and>
   readable_read exampleRange ''sum'' (exampleContext (Value (Number (Num 3)))) =
     Some (Returns (Value (Number (Num 6))), finishedContext (Value (Number (Num 3)))) \<and>
   readable_read exampleRange ''sum'' (finishedContext (Value (Number (Num 3)))) =
     Some (Returns (Value (Number (Num 6))), finishedContext (Value (Number (Num 3))))"
proof -
  have sum: "(''sum'', ''SUM'', \<lambda>rg ctx. rangeSum rg ctx None) \<in> set operations"
    by (simp add: operations_def)
  have keys: "cache (finishedContext (Value (Number (Num 3)))) (makeCacheKey exampleRange ''sum'') =
      Some (Value (Number (Num 6)))"
    by (simp add: makeCacheKey_exampleRange finishedContext_def exampleContext_def)
  have fresh: "invoked (\<lambda>rg ctx. rangeSum rg ctx None) exampleRange
      (exampleContext (Value (Number (Num 3)))) =
      Some (Returns (Value (Number (Num 6))), finishedContext (Value (Number (Num 3))))"
    by (simp add: invoked_def rangeSum_example_resolved [OF read_exampleContext])
       (simp add: exampleContext_def finishedContext_def)
  have empty: "cache (exampleContext (Value (Number (Num 3)))) (makeCacheKey exampleRange ''sum'') = None \<and>
      cache (exampleContext (Value (Number (Num 3)))) (makeCacheKey exampleRange ''SUM'') = None"
    by (simp add: cache_exampleContext)
  have first: "readable_read exampleRange ''sum'' (exampleContext (Value (Number (Num 3)))) =
        invoked (\<lambda>rg ctx. rangeSum rg ctx None) exampleRange (exampleContext (Value (Number (Num 3)))) \<and>
      readable_read exampleRange ''SUM'' (exampleContext (Value (Number (Num 3)))) =
        invoked (\<lambda>rg ctx. rangeSum rg ctx None) exampleRange (exampleContext (Value (Number (Num 3))))"
    using lower_and_upper_case_aggregation_names
      [where rg = exampleRange and ctx = "exampleContext (Value (Number (Num 3)))",
        THEN conjunct1, THEN bspec, OF sum] empty
    by simp
  have second: "readable_read exampleRange ''sum'' (finishedContext (Value (Number (Num 3)))) =
      Some (Returns (Value (Number (Num 6))), finishedContext (Value (Number (Num 3))))"
    using lower_and_upper_case_aggregation_names
      [where rg = exampleRange and ctx = "finishedContext (Value (Number (Num 3)))",
        THEN conjunct1, THEN bspec, OF sum] keys
    by simp
  from first second fresh show ?thesis
    by simp
qed

subsection \<open>The cache and the upper-case names\<close>

text \<open>
  C1 fails for the upper-case names. \<open>runFunc\<close> stores under the key of the fiber's state,
  which every aggregation function sets to the lower-case operation name, while the read
  looks the key of the property name up as it is spelled. In the example (cells 1, 2,
  Pending), the first request for \<open>SUM\<close> returns Pending and leaves the fiber in the cache
  under \<open>sum;0;0;3;1\<close>; the cache has nothing under the key of \<open>SUM\<close>, so the second
  request for \<open>SUM\<close> makes a fresh fiber and scans again from the first cell: the cells
  (0, 0), (1, 0), (2, 0) are read a second time. A second request for \<open>sum\<close> takes the
  Pending from the cache and reads no cell.
\<close>

theorem upper_case_request_restarts_scan:
  "readable_read exampleRange ''SUM'' (exampleContext (PendingTask (FormulaCell 2 0))) =
     Some (Returns (PendingTask (FunctionFiber exampleFiber)), blockedContext) \<and>
   cache blockedContext (makeCacheKey exampleRange ''sum'') =
     Some (PendingTask (FunctionFiber exampleFiber)) \<and>
   cache blockedContext (makeCacheKey exampleRange ''SUM'') = None \<and>
   readable_read exampleRange ''SUM'' blockedContext =
     Some (Returns (PendingTask (FunctionFiber exampleFiber)),
           blockedContext\<lparr>reads := [(0, 0), (1, 0), (2, 0), (0, 0), (1, 0), (2, 0)]\<rparr>) \<and>
   readable_read exampleRange ''sum'' blockedContext =
     Some (Returns (PendingTask (FunctionFiber exampleFiber)), blockedContext)"
proof -
  have up: "map_of aggregations ''SUM'' = Some (\<lambda>rg ctx. rangeSum rg ctx None)"
    and low: "map_of aggregations ''sum'' = Some (\<lambda>rg ctx. rangeSum rg ctx None)"
    by (simp_all add: aggregations_def)
  have first: "readable_read exampleRange ''SUM'' (exampleContext (PendingTask (FormulaCell 2 0))) =
     Some (Returns (PendingTask (FunctionFiber exampleFiber)), blockedContext)"
    by (simp add: readable_read_own [OF up] cachedOrFresh_def cache_exampleContext
          rangeSum_example_pending [OF read_exampleContext])
       (simp add: exampleContext_def blockedContext_def)
  have keys: "cache blockedContext (makeCacheKey exampleRange ''sum'') =
      Some (PendingTask (FunctionFiber exampleFiber)) \<and>
      cache blockedContext (makeCacheKey exampleRange ''SUM'') = None"
    by (simp add: makeCacheKey_exampleRange blockedContext_def exampleContext_def)
  have second: "readable_read exampleRange ''SUM'' blockedContext =
     Some (Returns (PendingTask (FunctionFiber exampleFiber)),
           blockedContext\<lparr>reads := [(0, 0), (1, 0), (2, 0), (0, 0), (1, 0), (2, 0)]\<rparr>)"
    using keys
    by (simp add: readable_read_own [OF up] cachedOrFresh_def
          rangeSum_example_pending [OF read_blockedContext])
       (simp add: exampleContext_def blockedContext_def)
  have lower: "readable_read exampleRange ''sum'' blockedContext =
     Some (Returns (PendingTask (FunctionFiber exampleFiber)), blockedContext)"
    using keys by (simp add: readable_read_own [OF low] cachedOrFresh_def)
  from first keys second lower show ?thesis
    by blast
qed

text \<open>
  C4 fails for the upper-case names, for the same reason. In the example with cells
  1, 2, 3, the request for \<open>SUM\<close> stores the final value 6 under \<open>sum;0;0;3;1\<close>. A
  further request for \<open>SUM\<close> does not find it: the fold runs again over the three cells.
  When the third cell has changed to 4 in the meantime, that request stores 7 under
  \<open>sum;0;0;3;1\<close>, where the final value 6 was. A request for \<open>sum\<close> returns the 6 of
  the cache and touches nothing.
\<close>

theorem upper_case_read_recomputes_final_value:
  "readable_read exampleRange ''SUM'' (exampleContext (Value (Number (Num 3)))) =
     Some (Returns (Value (Number (Num 6))), finishedContext (Value (Number (Num 3)))) \<and>
   cache (finishedContext (Value (Number (Num 3)))) (makeCacheKey exampleRange ''sum'') =
     Some (Value (Number (Num 6))) \<and>
   readable_read exampleRange ''SUM'' (finishedContext (Value (Number (Num 3)))) =
     Some (Returns (Value (Number (Num 6))),
           (finishedContext (Value (Number (Num 3))))
             \<lparr>reads := [(0, 0), (1, 0), (2, 0), (0, 0), (1, 0), (2, 0)]\<rparr>) \<and>
   readable_read exampleRange ''SUM'' (finishedContext (Value (Number (Num 4)))) =
     Some (Returns (Value (Number (Num 7))),
           (finishedContext (Value (Number (Num 4))))
             \<lparr>cache := [''sum;0;0;3;1'' \<mapsto> Value (Number (Num 7))],
              reads := [(0, 0), (1, 0), (2, 0), (0, 0), (1, 0), (2, 0)]\<rparr>) \<and>
   readable_read exampleRange ''sum'' (finishedContext (Value (Number (Num 4)))) =
     Some (Returns (Value (Number (Num 6))), finishedContext (Value (Number (Num 4))))"
proof -
  have keys: "cache (finishedContext third) (makeCacheKey exampleRange ''sum'') =
      Some (Value (Number (Num 6))) \<and>
      cache (finishedContext third) (makeCacheKey exampleRange ''SUM'') = None" for third
    by (simp add: makeCacheKey_exampleRange finishedContext_def exampleContext_def)
  have first: "readable_read exampleRange ''SUM'' (exampleContext (Value (Number (Num 3)))) =
     Some (Returns (Value (Number (Num 6))), finishedContext (Value (Number (Num 3))))"
    by (simp add: readable_read_own [OF map_of_aggregations_SUM] cachedOrFresh_def
          cache_exampleContext rangeSum_example_resolved [OF read_exampleContext])
       (simp add: exampleContext_def finishedContext_def)
  have again: "readable_read exampleRange ''SUM'' (finishedContext (Value (Number (Num x)))) =
     Some (Returns (Value (Number (Num (3 + x)))),
           (finishedContext (Value (Number (Num x))))
             \<lparr>cache := [''sum;0;0;3;1'' \<mapsto> Value (Number (Num (3 + x)))],
              reads := [(0, 0), (1, 0), (2, 0), (0, 0), (1, 0), (2, 0)]\<rparr>)" for x
    using keys [of "Value (Number (Num x))"]
    by (simp add: readable_read_own [OF map_of_aggregations_SUM] cachedOrFresh_def
          rangeSum_example_resolved [OF read_finishedContext])
       (simp add: exampleContext_def finishedContext_def)
  have same: "(finishedContext (Value (Number (Num 3))))
             \<lparr>cache := [''sum;0;0;3;1'' \<mapsto> Value (Number (Num 6))],
              reads := [(0, 0), (1, 0), (2, 0), (0, 0), (1, 0), (2, 0)]\<rparr> =
      (finishedContext (Value (Number (Num 3))))
             \<lparr>reads := [(0, 0), (1, 0), (2, 0), (0, 0), (1, 0), (2, 0)]\<rparr>"
    by (simp add: finishedContext_def)
  have lower: "readable_read exampleRange ''sum'' (finishedContext (Value (Number (Num 4)))) =
     Some (Returns (Value (Number (Num 6))), finishedContext (Value (Number (Num 4))))"
    using keys [of "Value (Number (Num 4))"]
    by (simp add: readable_read_own [OF map_of_aggregations_sum] cachedOrFresh_def)
  from first keys [of "Value (Number (Num 3))"] again [of 3] again [of 4] same lower show ?thesis
    by simp
qed

subsection \<open>Properties that are no aggregation\<close>

text \<open>
  C6 fails for the names that the aggregation table inherits from
  \<^verbatim>\<open>Object.prototype\<close>. \<open>toString\<close> and \<open>constructor\<close> are no aggregations and are none
  of row, ROW, column, COLUMN, yet the test \<^verbatim>\<open>aggregations[message] !== undefined\<close>
  holds for them: the read applies the inherited member and never reads the anchor cell,
  whether that cell is Pending, holds a number or holds a readable object. For a name found
  nowhere, such as \<open>toText\<close>, the read does what the claim says in these three contexts:
  Pending is returned as it is, a number gives the unknown-field error, and a readable
  object is asked for the property.
\<close>

theorem inherited_name_skips_anchor:
  "readable_read exampleRange ''toString'' (constContext (PendingTask (FormulaCell 0 0))) =
     Some (AppliesInherited ''toString'', constContext (PendingTask (FormulaCell 0 0))) \<and>
   readable_read exampleRange ''toString'' (constContext (Value (Number (Num 1)))) =
     Some (AppliesInherited ''toString'', constContext (Value (Number (Num 1)))) \<and>
   readable_read exampleRange ''constructor'' (constContext (Value (Obj echoObject))) =
     Some (AppliesInherited ''constructor'', constContext (Value (Obj echoObject))) \<and>
   readable_read exampleRange ''toText'' (constContext (PendingTask (FormulaCell 0 0))) =
     Some (Returns (PendingTask (FormulaCell 0 0)),
           (constContext (PendingTask (FormulaCell 0 0)))\<lparr>reads := [(0, 0)]\<rparr>) \<and>
   readable_read exampleRange ''toText'' (constContext (Value (Number (Num 1)))) =
     Some (Returns (Value (Obj (ErrorObj unknownField))),
           (constContext (Value (Number (Num 1))))\<lparr>reads := [(0, 0)]\<rparr>) \<and>
   readable_read exampleRange ''toText'' (constContext (Value (Obj echoObject))) =
     Some (Returns (Value (Str ''toText'')),
           (constContext (Value (Obj echoObject)))\<lparr>reads := [(0, 0)]\<rparr>)"
proof -
  have inh: "map_of aggregations ''toString'' = None" "''toString'' \<in> set objectPrototype"
    "map_of aggregations ''constructor'' = None" "''constructor'' \<in> set objectPrototype"
    by (simp_all add: aggregations_def objectPrototype_def)
  have other: "aggregationsGet ''toText'' = None"
    "''toText'' \<notin> {''row'', ''ROW'', ''column'', ''COLUMN''}"
    by (simp_all add: aggregationsGet_def aggregations_def objectPrototype_def)
  have anchor: "tlRow exampleRange = 0 \<and> tlCol exampleRange = 0"
    by (simp add: exampleRange_def)
  show ?thesis
    by (simp add: readable_read_inherited [OF inh(1,2)] readable_read_inherited [OF inh(3,4)]
          readable_read_default [OF other] cache_constContext read_constContext
          reads_constContext anchor echoObject_def)
qed

end
